theory Spec2Isabelle
  imports Main
begin

section \<open>Issue-credential v1.0 manager: data model\<close>

text \<open>
  A shallow embedding of \<^verbatim>\<open>CredentialManager\<close>
  (aries_cloudagent/protocols/issue_credential/v1_0/manager.py).
  Every flow of the manager is a function from the world (the durable stores, the cache
  and the trace of calls made on the injected capabilities) to an outcome and the new
  world. A flow that receives the exchange record as a Python object mutates it in
  place, so it also returns the record as the caller sees it afterwards, whether the
  flow returned or raised.
\<close>

subsection \<open>Python values\<close>

text \<open>A JSON object payload (indy offer, request, credential): keys and values in order.\<close>

type_synonym json = "(string \<times> string) list"

text \<open>Python truthiness of an optional dict and of an optional string.\<close>

definition truthy :: "'a list option \<Rightarrow> bool" where
  "truthy v = (case v of None \<Rightarrow> False | Some xs \<Rightarrow> xs \<noteq> [])"

text \<open>What an f-string prints for an optional string.\<close>

definition py_str :: "string option \<Rightarrow> string" where
  "py_str v = (case v of None \<Rightarrow> ''None'' | Some s \<Rightarrow> s)"

text \<open>
  \<^verbatim>\<open>int(s)\<close> on a string: an optional sign and decimal digits. The other
  spellings Python accepts (surrounding blanks, underscores between digits) are not used
  by the values the manager reads (epoch tags and credential revocation ids) and are
  rejected here as malformed.
\<close>

definition digit_val :: "char \<Rightarrow> nat option" where
  "digit_val c = (let n = (of_char c :: nat) in if 48 \<le> n \<and> n \<le> 57 then Some (n - 48) else None)"

fun digits_val :: "nat \<Rightarrow> string \<Rightarrow> nat option" where
  "digits_val acc [] = Some acc"
| "digits_val acc (c # cs) =
     (case digit_val c of None \<Rightarrow> None | Some d \<Rightarrow> digits_val (10 * acc + d) cs)"

definition py_int :: "string \<Rightarrow> int option" where
  "py_int s =
     (case s of
        [] \<Rightarrow> None
      | c # cs \<Rightarrow>
          if c = CHR ''-'' then (if cs = [] then None else map_option (\<lambda>n. - int n) (digits_val 0 cs))
          else if c = CHR ''+'' then (if cs = [] then None else map_option int (digits_val 0 cs))
          else map_option int (digits_val 0 s))"

subsection \<open>Errors\<close>

text \<open>
  The manager raises one class, \<^verbatim>\<open>CredentialManagerError\<close>, with a message per raise
  site. The first five constructors are those raise sites, each carrying the values its
  message interpolates: the state guard (exchange id, observed state, required state),
  \<^verbatim>\<open>_match_sent_cred_def_id\<close> (the tag query), the preview check of
  \<^verbatim>\<open>create_offer\<close> (preview and schema attribute sets), the exhausted wait for an active
  revocation registry (cred def id) and \<^verbatim>\<open>receive_request\<close> without a record. The others
  are the exceptions of the storage, the issuer, the holder and of Python itself.
\<close>

datatype cx_state =
    PROPOSAL_SENT | PROPOSAL_RECEIVED | OFFER_SENT | OFFER_RECEIVED
  | REQUEST_SENT | REQUEST_RECEIVED | ISSUED | CREDENTIAL_RECEIVED | ACKED

datatype error =
    WrongState "string option" "cx_state option" cx_state
  | NoUsableCredDef json
  | PreviewMismatch "string set" "string set"
  | NoActiveRevocationRegistry "string option"
  | CannotStartFromRequest
  | StorageNotFoundError
  | IndyIssuerRevocationRegistryFullError
  | IndyHolderError
  | AssertionError
  | AttributeError
  | KeyError string
  | ValueError
  | TypeError
  | IndexError
  | UnboundLocalError

subsection \<open>Messages\<close>

text \<open>
  An agent message has an id, an optional thread decorator and an optional trace
  decorator. \<^verbatim>\<open>_thread_id\<close> is the thread's \<^verbatim>\<open>thid\<close> when there is one, the
  message's own id otherwise.
\<close>

record agent_message =
  msg_id :: string
  thid :: "string option"
  trace_dec :: bool

definition thread_id_of :: "'a agent_message_scheme \<Rightarrow> string" where
  "thread_id_of m = (if truthy (thid m) then the (thid m) else msg_id m)"

definition assign_trace_decorator :: "bool \<Rightarrow> 'a agent_message_scheme \<Rightarrow> 'a agent_message_scheme" where
  "assign_trace_decorator trace m = (if trace then m\<lparr>trace_dec := True\<rparr> else m)"

record cred_attr =
  attr_name :: string
  attr_value :: string
  attr_mime_type :: "string option"

type_synonym credential_preview = "cred_attr list"

text \<open>\<^verbatim>\<open>attr_dict()\<close>: the dict from attribute name to value; only its keys are read.\<close>

definition attr_dict_keys :: "credential_preview \<Rightarrow> string set" where
  "attr_dict_keys pv = set (map attr_name pv)"

record credential_proposal = agent_message +
  p_comment :: "string option"
  p_credential_proposal :: "credential_preview option"
  p_schema_id :: "string option"
  p_schema_issuer_did :: "string option"
  p_schema_name :: "string option"
  p_schema_version :: "string option"
  p_cred_def_id :: "string option"
  p_issuer_did :: "string option"

record credential_offer = agent_message +
  o_comment :: "string option"
  o_credential_preview :: "credential_preview option"
  o_offers_attach :: "json list"

record credential_request = agent_message +
  requests_attach :: "json list option"

record credential_issue = agent_message +
  i_comment :: "string option"
  credentials_attach :: "json list option"

record credential_ack = agent_message +
  pthid :: "string option"

record credential_problem_report = agent_message +
  description :: json

subsection \<open>The credential exchange record\<close>

record cred_ex =
  credential_exchange_id :: "string option"
  connection_id :: "string option"
  thread_id :: "string option"
  parent_thread_id :: "string option"
  initiator :: "string option"
  role :: "string option"
  state :: "cx_state option"
  credential_proposal_dict :: "credential_proposal option"
  credential_offer_dict :: "credential_offer option"
  credential_offer :: "json option"
  credential_request :: "json option"
  credential_request_metadata :: "json option"
  raw_credential :: "json option"
  credential :: "json option"
  credential_id :: "string option"
  schema_id :: "string option"
  credential_definition_id :: "string option"
  revoc_reg_id :: "string option"
  revocation_id :: "string option"
  auto_offer :: "bool option"
  auto_issue :: "bool option"
  auto_remove :: bool
  trace :: bool
  error_msg :: "string option"

text \<open>The constructor \<^verbatim>\<open>V10CredentialExchange(...)\<close> with no argument given.\<close>

definition new_cred_ex :: cred_ex where
  "new_cred_ex =
     \<lparr>credential_exchange_id = None, connection_id = None, thread_id = None,
      parent_thread_id = None, initiator = None, role = None, state = None,
      credential_proposal_dict = None, credential_offer_dict = None,
      credential_offer = None, credential_request = None,
      credential_request_metadata = None, raw_credential = None, credential = None,
      credential_id = None, schema_id = None, credential_definition_id = None,
      revoc_reg_id = None, revocation_id = None, auto_offer = None, auto_issue = None,
      auto_remove = True, trace = False, error_msg = None\<rparr>"

subsection \<open>Revocation registry records\<close>

datatype rr_state = RR_INIT | RR_GENERATED | RR_POSTED | RR_ACTIVE | RR_FULL

text \<open>An issuer revocation registry record; \<open>rr_created_at\<close> is the time of its creation.\<close>

record rev_reg_rec =
  rr_revoc_reg_id :: string
  rr_cred_def_id :: string
  rr_state :: rr_state
  rr_max_cred_num :: int
  rr_tails_local_path :: "string option"
  rr_created_at :: nat

text \<open>
  Modelled from the spec: the comparison of issuer revocation registry records, which
  \<^verbatim>\<open>sorted(records)\<close> uses, is declared with the record class outside this module. The
  spec has the records ordered for the reuse of the prior size, the first of them being
  the most recently created one: a record is less than another when it was created later.
  \<^verbatim>\<open>sorted\<close> is stable, and so is the insertion sort that stands for it.
\<close>

definition rr_lt :: "rev_reg_rec \<Rightarrow> rev_reg_rec \<Rightarrow> bool" where
  "rr_lt a b = (rr_created_at b < rr_created_at a)"

fun insort_rr :: "rev_reg_rec \<Rightarrow> rev_reg_rec list \<Rightarrow> rev_reg_rec list" where
  "insort_rr x [] = [x]"
| "insort_rr x (y # ys) = (if rr_lt y x then y # insort_rr x ys else x # y # ys)"

definition sorted_records :: "rev_reg_rec list \<Rightarrow> rev_reg_rec list" where
  "sorted_records recs = foldr insort_rr recs []"

record revocation_registry =
  max_creds :: int
  tails_local_path :: "string option"

subsection \<open>The world\<close>

datatype event =
    Notify "string option" "int option" bool
  | Sleep nat
  | IssuerCreateOffer string
  | IssuerCreateCredential "string option" "string option"
  | HolderCreateRequest "string option" string
  | HolderStoreCredential "string option"
  | FetchTails string
  | RevRegSetState string rr_state
  | Saved string "string option"
  | Deleted "string option"
  | SendReply string "string option"
  | LogWarning

record world =
  cx_store :: "cred_ex list"
  sent_cred_defs :: "json list"
  rev_reg_recs :: "rev_reg_rec list"
  offer_cache :: "(string \<times> json) list"
  request_cache :: "(string \<times> json \<times> json) list"
  events :: "event list"
  uuid_count :: nat

definition emit :: "event \<Rightarrow> world \<Rightarrow> world" where
  "emit e w = w\<lparr>events := events w @ [e]\<rparr>"


subsection \<open>The record store\<close>

text \<open>
  Modelled from the spec: the record class and its store (\<^verbatim>\<open>retrieve_by_connection_and_thread\<close>,
  \<^verbatim>\<open>retrieve_by_tag_filter\<close>, \<^verbatim>\<open>save\<close>, \<^verbatim>\<open>delete_record\<close>) are declared outside this
  module. A lookup returns the record stored under the (connection, thread) pair, of
  which there is at most one, and fails with \<^verbatim>\<open>StorageNotFound\<close> on a miss. A save writes
  the record under its exchange id, which is assigned at the first save; a delete removes
  that one record.
\<close>

definition retrieve_by_connection_and_thread :: "cred_ex list \<Rightarrow> string \<Rightarrow> string \<Rightarrow> error + cred_ex" where
  "retrieve_by_connection_and_thread store conn t =
     (case find (\<lambda>r. thread_id r = Some t \<and> connection_id r = Some conn) store of
        None \<Rightarrow> Inl StorageNotFoundError
      | Some r \<Rightarrow> Inr r)"

text \<open>The call made by \<^verbatim>\<open>receive_request\<close>: thread id given, connection id unset.\<close>

definition retrieve_by_thread_no_connection :: "cred_ex list \<Rightarrow> string \<Rightarrow> error + cred_ex" where
  "retrieve_by_thread_no_connection store t =
     (case find (\<lambda>r. thread_id r = Some t \<and> connection_id r = None) store of
        None \<Rightarrow> Inl StorageNotFoundError
      | Some r \<Rightarrow> Inr r)"

fun upsert :: "string \<Rightarrow> cred_ex \<Rightarrow> cred_ex list \<Rightarrow> cred_ex list" where
  "upsert i r [] = [r]"
| "upsert i r (x # xs) =
     (if credential_exchange_id x = Some i then r # xs else x # upsert i r xs)"

subsection \<open>The profile: settings and injected capabilities\<close>

record schema =
  attrNames :: "string list"

record cred_def =
  cd_revocation :: bool

text \<open>
  The ledger, the issuer and the holder are external; the profile holds what each of
  their calls returns. The issuer's and the holder's answers may depend on what happened
  before (a registry fills up), so they read the world. \<open>uuid4\<close> is the supply of fresh
  identifiers.
\<close>

record profile =
  preserve_exchange_records :: bool
  auto_respond_credential_proposal :: bool
  auto_respond_credential_request :: bool
  has_cache :: bool
  has_responder :: bool
  uuid4 :: "nat \<Rightarrow> string"
  credential_definition_id2schema_id :: "string \<Rightarrow> string"
  get_schema :: "string option \<Rightarrow> schema"
  get_credential_definition :: "string option \<Rightarrow> cred_def"
  get_revoc_reg_def :: "string \<Rightarrow> json"
  create_credential_offer :: "string \<Rightarrow> json"
  create_credential ::
    "world \<Rightarrow> schema \<Rightarrow> json \<Rightarrow> json \<Rightarrow> json \<Rightarrow> string option \<Rightarrow> string option \<Rightarrow> string option
       \<Rightarrow> error + (json \<times> string option)"
  create_credential_request :: "json \<Rightarrow> cred_def \<Rightarrow> string \<Rightarrow> json \<times> json"
  store_credential_in_wallet ::
    "world \<Rightarrow> cred_def \<Rightarrow> json \<Rightarrow> json option \<Rightarrow> string option \<Rightarrow> error + string"
  get_credential :: "string \<Rightarrow> json"

definition save :: "profile \<Rightarrow> string \<Rightarrow> cred_ex \<Rightarrow> world \<Rightarrow> cred_ex \<times> world" where
  "save p reason r w =
     (case credential_exchange_id r of
        None \<Rightarrow>
          (let i = uuid4 p (uuid_count w);
               r' = r\<lparr>credential_exchange_id := Some i\<rparr>
           in (r', w\<lparr>cx_store := cx_store w @ [r'],
                     events := events w @ [Saved reason (Some i)],
                     uuid_count := Suc (uuid_count w)\<rparr>))
      | Some i \<Rightarrow>
          (r, w\<lparr>cx_store := upsert i r (cx_store w),
                 events := events w @ [Saved reason (Some i)]\<rparr>))"

definition delete_record :: "cred_ex \<Rightarrow> world \<Rightarrow> world" where
  "delete_record r w =
     w\<lparr>cx_store := filter (\<lambda>x. credential_exchange_id x \<noteq> credential_exchange_id r) (cx_store w),
       events := events w @ [Deleted (credential_exchange_id r)]\<rparr>"

section \<open>Flows driven by an inbound message\<close>

text \<open>\<^verbatim>\<open>message.xs_attach or []\<close>\<close>

definition or_empty :: "'a list option \<Rightarrow> 'a list" where
  "or_empty v = (case v of None \<Rightarrow> [] | Some xs \<Rightarrow> xs)"

definition receive_credential ::
  "profile \<Rightarrow> credential_issue \<Rightarrow> string \<Rightarrow> world \<Rightarrow> (error + cred_ex) \<times> world" where
  "receive_credential p message conn w =
     (if length (or_empty (credentials_attach message)) \<noteq> 1 then (Inl AssertionError, w)
      else
        let raw = hd (or_empty (credentials_attach message)) in
        case retrieve_by_connection_and_thread (cx_store w) conn (thread_id_of message) of
          Inl e \<Rightarrow> (Inl e, w)
        | Inr r \<Rightarrow>
            (let r1 = r\<lparr>raw_credential := Some raw, state := Some CREDENTIAL_RECEIVED\<rparr>;
                 (r2, w') = save p ''receive credential'' r1 w
             in (Inr r2, w')))"

definition receive_request ::
  "profile \<Rightarrow> credential_request \<Rightarrow> string \<Rightarrow> world \<Rightarrow> (error + cred_ex) \<times> world" where
  "receive_request p message conn w =
     (if length (or_empty (requests_attach message)) \<noteq> 1 then (Inl AssertionError, w)
      else
        let req = hd (or_empty (requests_attach message)) in
        case (case retrieve_by_connection_and_thread (cx_store w) conn (thread_id_of message) of
                Inr r \<Rightarrow> Inr r
              | Inl e \<Rightarrow>
                  if e = StorageNotFoundError then
                    (case retrieve_by_thread_no_connection (cx_store w) (thread_id_of message) of
                       Inr r \<Rightarrow> Inr (r\<lparr>connection_id := Some conn\<rparr>)
                     | Inl e' \<Rightarrow>
                         if e' = StorageNotFoundError then Inl CannotStartFromRequest else Inl e')
                  else Inl e) of
          Inl e \<Rightarrow> (Inl e, w)
        | Inr r \<Rightarrow>
            (let r1 = r\<lparr>credential_request := Some req, state := Some REQUEST_RECEIVED\<rparr>;
                 (r2, w') = save p ''receive credential request'' r1 w
             in (Inr r2, w')))"

text \<open>
  \<^verbatim>\<open>ProblemReportReason.ISSUANCE_ABANDONED.value\<close>; the enumeration is declared with the
  problem report message, and the spec gives the value.
\<close>

definition ISSUANCE_ABANDONED :: string where
  "ISSUANCE_ABANDONED = ''issuance-abandoned''"

text \<open>\<^verbatim>\<open>d.get(k, default)\<close>\<close>

definition dict_get :: "json \<Rightarrow> string \<Rightarrow> string \<Rightarrow> string" where
  "dict_get d k dflt = (case map_of d k of None \<Rightarrow> dflt | Some v \<Rightarrow> v)"

definition receive_problem_report ::
  "profile \<Rightarrow> credential_problem_report \<Rightarrow> string \<Rightarrow> world \<Rightarrow> (error + cred_ex) \<times> world" where
  "receive_problem_report p message conn w =
     (case retrieve_by_connection_and_thread (cx_store w) conn (thread_id_of message) of
        Inl e \<Rightarrow> (Inl e, w)
      | Inr r \<Rightarrow>
          (let code = dict_get (description message) ''code'' ISSUANCE_ABANDONED;
               r1 = r\<lparr>state := None,
                       error_msg := Some (code @ '': '' @ dict_get (description message) ''en'' code)\<rparr>;
               (r2, w') = save p ''received problem report'' r1 w
           in (Inr r2, w')))"

definition receive_credential_ack ::
  "profile \<Rightarrow> credential_ack \<Rightarrow> string \<Rightarrow> world \<Rightarrow> (error + cred_ex) \<times> world" where
  "receive_credential_ack p message conn w =
     (case retrieve_by_connection_and_thread (cx_store w) conn (thread_id_of message) of
        Inl e \<Rightarrow> (Inl e, w)
      | Inr r \<Rightarrow>
          (let r1 = r\<lparr>state := Some ACKED\<rparr>;
               (r2, w') = save p ''credential acked'' r1 w
           in if auto_remove r2 then (Inr r2, delete_record r2 w') else (Inr r2, w')))"


section \<open>Flows called on an exchange record\<close>

definition INITIATOR_SELF :: string where "INITIATOR_SELF = ''self''"
definition INITIATOR_EXTERNAL :: string where "INITIATOR_EXTERNAL = ''external''"
definition ROLE_ISSUER :: string where "ROLE_ISSUER = ''issuer''"
definition ROLE_HOLDER :: string where "ROLE_HOLDER = ''holder''"

text \<open>A message built by the manager draws its id from the supply.\<close>

definition fresh_id :: "profile \<Rightarrow> world \<Rightarrow> string \<times> world" where
  "fresh_id p w = (uuid4 p (uuid_count w), w\<lparr>uuid_count := Suc (uuid_count w)\<rparr>)"

subsection \<open>Proposals\<close>

definition create_proposal ::
  "profile \<Rightarrow> string \<Rightarrow> bool option \<Rightarrow> bool option \<Rightarrow> string option \<Rightarrow> credential_preview option
     \<Rightarrow> string option \<Rightarrow> string option \<Rightarrow> string option \<Rightarrow> string option \<Rightarrow> string option
     \<Rightarrow> string option \<Rightarrow> bool \<Rightarrow> world \<Rightarrow> cred_ex \<times> world" where
  "create_proposal p conn auto_offer_arg auto_remove_arg comment preview
       schema_id_arg schema_issuer_did schema_name schema_version cred_def_id issuer_did trace_arg w =
     (let (mid, w1) = fresh_id p w;
          message = assign_trace_decorator trace_arg
            \<lparr>msg_id = mid, thid = None, trace_dec = False, p_comment = comment,
             p_credential_proposal = preview, p_schema_id = schema_id_arg,
             p_schema_issuer_did = schema_issuer_did, p_schema_name = schema_name,
             p_schema_version = schema_version, p_cred_def_id = cred_def_id,
             p_issuer_did = issuer_did\<rparr>;
          ar = (case auto_remove_arg of None \<Rightarrow> \<not> preserve_exchange_records p | Some b \<Rightarrow> b);
          r = new_cred_ex\<lparr>connection_id := Some conn, thread_id := Some (thread_id_of message),
                initiator := Some INITIATOR_SELF, role := Some ROLE_HOLDER,
                state := Some PROPOSAL_SENT, credential_proposal_dict := Some message,
                auto_offer := auto_offer_arg, auto_remove := ar, trace := trace_arg\<rparr>
      in save p ''create credential proposal'' r w1)"

definition receive_proposal ::
  "profile \<Rightarrow> credential_proposal \<Rightarrow> string \<Rightarrow> world \<Rightarrow> cred_ex \<times> world" where
  "receive_proposal p message conn w =
     (let r = new_cred_ex\<lparr>connection_id := Some conn, thread_id := Some (thread_id_of message),
                initiator := Some INITIATOR_EXTERNAL, role := Some ROLE_ISSUER,
                state := Some PROPOSAL_RECEIVED, credential_proposal_dict := Some message,
                auto_offer := Some (auto_respond_credential_proposal p),
                auto_issue := Some (auto_respond_credential_request p),
                auto_remove := \<not> preserve_exchange_records p, trace := trace_dec message\<rparr>
      in save p ''receive credential proposal'' r w)"

subsection \<open>Offers\<close>

text \<open>
  \<^verbatim>\<open>CRED_DEF_TAGS\<close> is declared with the credential definition utilities; the spec lists
  its six tags. Each tag reads the proposal attribute of the same name.
\<close>

definition CRED_DEF_TAGS :: "(string \<times> (credential_proposal \<Rightarrow> string option)) list" where
  "CRED_DEF_TAGS =
     [(''schema_issuer_did'', p_schema_issuer_did), (''schema_name'', p_schema_name),
      (''schema_version'', p_schema_version), (''schema_id'', p_schema_id),
      (''issuer_did'', p_issuer_did), (''cred_def_id'', p_cred_def_id)]"

definition tag_query_of :: "credential_proposal \<Rightarrow> json" where
  "tag_query_of pm =
     map (\<lambda>(t, get). (t, the (get pm))) (filter (\<lambda>(t, get). truthy (get pm)) CRED_DEF_TAGS)"

text \<open>
  Modelled from the spec: \<^verbatim>\<open>find_all_records\<close> of the storage returns the records of the
  given type whose tags match the filter, every selector of the query being equal to the
  record's tag of that name.
\<close>

definition find_all_records :: "json list \<Rightarrow> json \<Rightarrow> json list" where
  "find_all_records recs tag_query =
     filter (\<lambda>tags. list_all (\<lambda>(k, v). map_of tags k = Some v) tag_query) recs"

text \<open>The key of \<^verbatim>\<open>max\<close>: \<^verbatim>\<open>int(r.tags["epoch"])\<close>.\<close>

definition epoch_of :: "json \<Rightarrow> error + int" where
  "epoch_of tags =
     (case map_of tags ''epoch'' of
        None \<Rightarrow> Inl (KeyError ''epoch'')
      | Some s \<Rightarrow> (case py_int s of None \<Rightarrow> Inl ValueError | Some n \<Rightarrow> Inr n))"

text \<open>
  \<^verbatim>\<open>max(found, key=...)\<close> on a non-empty list: the key of each element is computed in
  order, the first failure is raised, and the first element with the greatest key wins.
\<close>

fun max_from :: "json \<Rightarrow> int \<Rightarrow> json list \<Rightarrow> error + json" where
  "max_from best k [] = Inr best"
| "max_from best k (x # xs) =
     (case epoch_of x of
        Inl e \<Rightarrow> Inl e
      | Inr kx \<Rightarrow> if k < kx then max_from x kx xs else max_from best k xs)"

definition max_by_epoch :: "json list \<Rightarrow> error + json" where
  "max_by_epoch found =
     (case found of
        [] \<Rightarrow> Inl ValueError
      | x # xs \<Rightarrow> (case epoch_of x of Inl e \<Rightarrow> Inl e | Inr k \<Rightarrow> max_from x k xs))"

definition match_sent_cred_def_id :: "json \<Rightarrow> world \<Rightarrow> error + string" where
  "match_sent_cred_def_id tag_query w =
     (let found = find_all_records (sent_cred_defs w) tag_query in
      if found = [] then Inl (NoUsableCredDef tag_query)
      else
        case max_by_epoch found of
          Inl e \<Rightarrow> Inl e
        | Inr r \<Rightarrow>
            (case map_of r ''cred_def_id'' of
               None \<Rightarrow> Inl (KeyError ''cred_def_id'')
             | Some cd \<Rightarrow> Inr cd))"

text \<open>The inner \<^verbatim>\<open>_create\<close> of \<^verbatim>\<open>create_offer\<close>: one call on the issuer.\<close>

definition offer_create :: "profile \<Rightarrow> string \<Rightarrow> world \<Rightarrow> json \<times> world" where
  "offer_create p cd w = (create_credential_offer p cd, emit (IssuerCreateOffer cd) w)"

text \<open>
  The cache lease around the offer: a truthy cached result is adopted, otherwise the
  offer is created and stored; an offer that is still falsy afterwards is created again.
  The time to live of an entry is not modelled.
\<close>

definition obtain_offer :: "profile \<Rightarrow> string \<Rightarrow> world \<Rightarrow> json \<times> world" where
  "obtain_offer p cd w =
     (let cache_key = ''credential_offer::'' @ cd;
          (offer, w1) =
            (if has_cache p then
               (if truthy (map_of (offer_cache w) cache_key) then (map_of (offer_cache w) cache_key, w)
                else
                  (let (o1, w') = offer_create p cd w
                   in (Some o1, w'\<lparr>offer_cache := (cache_key, o1) # offer_cache w'\<rparr>)))
             else (None, w))
      in if \<not> truthy offer then offer_create p cd w1 else (the offer, w1))"

definition create_offer ::
  "profile \<Rightarrow> cred_ex \<Rightarrow> credential_proposal option \<Rightarrow> string option \<Rightarrow> world
     \<Rightarrow> (error + credential_offer) \<times> world \<times> cred_ex" where
  "create_offer p r counter_proposal comment w =
     (case (if counter_proposal \<noteq> None then counter_proposal else credential_proposal_dict r) of
        None \<Rightarrow> (Inl AttributeError, w, r)
      | Some pm0 \<Rightarrow>
          (let pm = assign_trace_decorator (trace r) pm0;
               r0 = (if counter_proposal \<noteq> None then r else r\<lparr>credential_proposal_dict := Some pm\<rparr>)
           in
           case match_sent_cred_def_id (tag_query_of pm) w of
             Inl e \<Rightarrow> (Inl e, w, r0)
           | Inr cd \<Rightarrow>
               (let sch = get_schema p (Some (credential_definition_id2schema_id p cd));
                    schema_attrs = set (attrNames sch)
                in
                case p_credential_proposal pm of
                  None \<Rightarrow> (Inl AttributeError, w, r0)
                | Some preview \<Rightarrow>
                    if attr_dict_keys preview \<noteq> schema_attrs
                    then (Inl (PreviewMismatch (attr_dict_keys preview) schema_attrs), w, r0)
                    else
                      (let (offer, w1) = obtain_offer p cd w;
                           (mid, w2) = fresh_id p w1;
                           message = assign_trace_decorator (trace r0)
                             \<lparr>msg_id = mid, thid = thread_id r0, trace_dec = False,
                              o_comment = comment, o_credential_preview = Some preview,
                              o_offers_attach = [offer]\<rparr>;
                           r1 = r0\<lparr>thread_id := Some (thread_id_of message)\<rparr>
                       in
                       case map_of offer ''schema_id'' of
                         None \<Rightarrow> (Inl (KeyError ''schema_id''), w2, r1)
                       | Some sid \<Rightarrow>
                           (case map_of offer ''cred_def_id'' of
                              None \<Rightarrow> (Inl (KeyError ''cred_def_id''), w2, r1\<lparr>schema_id := Some sid\<rparr>)
                            | Some cdid \<Rightarrow>
                                (let r2 = r1\<lparr>schema_id := Some sid,
                                           credential_definition_id := Some cdid,
                                           state := Some OFFER_SENT,
                                           credential_proposal_dict := Some pm,
                                           credential_offer := Some offer,
                                           credential_offer_dict := Some message\<rparr>;
                                     (r3, w3) = save p ''create credential offer'' r2 w2
                                 in (Inr message, w3, r3)))))))"

definition prepare_send ::
  "profile \<Rightarrow> string \<Rightarrow> credential_proposal \<Rightarrow> bool option \<Rightarrow> string option \<Rightarrow> world
     \<Rightarrow> (error + credential_offer) \<times> world \<times> cred_ex" where
  "prepare_send p conn proposal auto_remove_arg comment w =
     (let ar = (case auto_remove_arg of None \<Rightarrow> \<not> preserve_exchange_records p | Some b \<Rightarrow> b);
          r = new_cred_ex\<lparr>connection_id := Some conn, initiator := Some INITIATOR_SELF,
                role := Some ROLE_ISSUER, credential_proposal_dict := Some proposal,
                auto_issue := Some True, auto_remove := ar, trace := trace_dec proposal\<rparr>
      in create_offer p r None comment w)"

definition receive_offer ::
  "profile \<Rightarrow> credential_offer \<Rightarrow> string \<Rightarrow> world \<Rightarrow> (error + cred_ex) \<times> world" where
  "receive_offer p message conn w =
     (case o_offers_attach message of
        [] \<Rightarrow> (Inl IndexError, w)
      | indy_offer # _ \<Rightarrow>
          (case map_of indy_offer ''schema_id'' of
             None \<Rightarrow> (Inl (KeyError ''schema_id''), w)
           | Some sid \<Rightarrow>
               (case map_of indy_offer ''cred_def_id'' of
                  None \<Rightarrow> (Inl (KeyError ''cred_def_id''), w)
                | Some cd \<Rightarrow>
                    (let (mid, w1) = fresh_id p w;
                         proposal =
                           \<lparr>msg_id = mid, thid = None, trace_dec = False,
                            p_comment = o_comment message,
                            p_credential_proposal = o_credential_preview message,
                            p_schema_id = Some sid, p_schema_issuer_did = None,
                            p_schema_name = None, p_schema_version = None,
                            p_cred_def_id = Some cd, p_issuer_did = None\<rparr>
                     in
                     case (case retrieve_by_connection_and_thread (cx_store w1) conn
                                  (thread_id_of message) of
                             Inr r \<Rightarrow> Inr (r\<lparr>credential_proposal_dict := Some proposal\<rparr>)
                           | Inl e \<Rightarrow>
                               if e = StorageNotFoundError then
                                 Inr (new_cred_ex\<lparr>connection_id := Some conn,
                                        thread_id := Some (thread_id_of message),
                                        initiator := Some INITIATOR_EXTERNAL,
                                        role := Some ROLE_HOLDER,
                                        credential_proposal_dict := Some proposal,
                                        auto_remove := \<not> preserve_exchange_records p,
                                        trace := trace_dec message\<rparr>)
                               else Inl e) of
                       Inl e \<Rightarrow> (Inl e, w1)
                     | Inr r \<Rightarrow>
                         (let r1 = r\<lparr>credential_offer := Some indy_offer,
                                    state := Some OFFER_RECEIVED,
                                    schema_id := Some sid,
                                    credential_definition_id := Some cd\<rparr>;
                              (r2, w2) = save p ''receive credential offer'' r1 w1
                          in (Inr r2, w2))))))"


subsection \<open>Requests\<close>

text \<open>
  The inner \<^verbatim>\<open>_create\<close> of \<^verbatim>\<open>create_request\<close>: the cred def is read from the ledger
  and the holder is called once.
\<close>

definition request_create ::
  "profile \<Rightarrow> string option \<Rightarrow> json \<Rightarrow> string \<Rightarrow> world \<Rightarrow> (json \<times> json) \<times> world" where
  "request_create p cd cred_offer_ser holder_did w =
     (create_credential_request p cred_offer_ser (get_credential_definition p cd) holder_did,
      emit (HolderCreateRequest cd holder_did) w)"

text \<open>
  The cache lease around the request. The result is a dict of two entries, which is
  always truthy, so a cached or freshly created result is never created again.
\<close>

definition obtain_request ::
  "profile \<Rightarrow> string option \<Rightarrow> json \<Rightarrow> string \<Rightarrow> string \<Rightarrow> world \<Rightarrow> (json \<times> json) \<times> world" where
  "obtain_request p cd cred_offer_ser holder_did nonce w =
     (let cache_key = ''credential_request::'' @ py_str cd @ ''::'' @ holder_did @ ''::'' @ nonce in
      if has_cache p then
        (case map_of (request_cache w) cache_key of
           Some res \<Rightarrow> (res, w)
         | None \<Rightarrow>
             (let (res, w') = request_create p cd cred_offer_ser holder_did w
              in (res, w'\<lparr>request_cache := (cache_key, res) # request_cache w'\<rparr>)))
      else request_create p cd cred_offer_ser holder_did w)"

definition create_request ::
  "profile \<Rightarrow> cred_ex \<Rightarrow> string \<Rightarrow> world \<Rightarrow> (error + credential_request) \<times> world \<times> cred_ex" where
  "create_request p r holder_did w =
     (if state r \<noteq> Some OFFER_RECEIVED
      then (Inl (WrongState (credential_exchange_id r) (state r) OFFER_RECEIVED), w, r)
      else
        case credential_offer r of
          None \<Rightarrow> (Inl AttributeError, w, r)
        | Some cred_offer_ser \<Rightarrow>
            (case (if truthy (credential_request r) then Inr (r, emit LogWarning w)
                   else
                     (case map_of cred_offer_ser ''nonce'' of
                        None \<Rightarrow> Inl (KeyError ''nonce'')
                      | Some nonce \<Rightarrow>
                          (let ((req, metadata), w') =
                                 obtain_request p (credential_definition_id r) cred_offer_ser
                                   holder_did nonce w
                           in Inr (r\<lparr>credential_request := Some req,
                                      credential_request_metadata := Some metadata\<rparr>, w')))) of
               Inl e \<Rightarrow> (Inl e, w, r)
             | Inr (r1, w1) \<Rightarrow>
                 (case credential_request r1 of
                    None \<Rightarrow> (Inl AttributeError, w1, r1)
                  | Some req \<Rightarrow>
                      (let (mid, w2) = fresh_id p w1;
                           message = assign_trace_decorator (trace r1)
                             \<lparr>msg_id = mid, thid = thread_id r1, trace_dec = False,
                              requests_attach = Some [req]\<rparr>;
                           r2 = r1\<lparr>state := Some REQUEST_SENT\<rparr>;
                           (r3, w3) = save p ''create credential request'' r2 w2
                       in (Inr message, w3, r3)))))"

subsection \<open>Issuance\<close>

text \<open>\<^verbatim>\<open>IssuerRevRegRecord.query_by_cred_def_id\<close>, with and without the state filter.\<close>

definition query_by_cred_def_id :: "rev_reg_rec list \<Rightarrow> string option \<Rightarrow> rr_state option \<Rightarrow> rev_reg_rec list" where
  "query_by_cred_def_id recs cd st =
     filter (\<lambda>x. Some (rr_cred_def_id x) = cd \<and> (case st of None \<Rightarrow> True | Some s \<Rightarrow> rr_state x = s)) recs"

text \<open>
  Modelled from the spec: \<^verbatim>\<open>get_active_issuer_rev_reg_record\<close> and \<^verbatim>\<open>get_registry\<close> belong
  to the revocation subsystem. The first returns an active registry record of the cred
  def, or fails with \<^verbatim>\<open>StorageNotFound\<close> when there is none; the second gives the registry
  of a record, which has the record's capacity and tails path.
\<close>

definition get_active_issuer_rev_reg_record :: "rev_reg_rec list \<Rightarrow> string option \<Rightarrow> error + rev_reg_rec" where
  "get_active_issuer_rev_reg_record recs cd =
     (case query_by_cred_def_id recs cd (Some RR_ACTIVE) of
        [] \<Rightarrow> Inl StorageNotFoundError
      | a # _ \<Rightarrow> Inr a)"

definition get_registry :: "rev_reg_rec \<Rightarrow> revocation_registry" where
  "get_registry a = \<lparr>max_creds = rr_max_cred_num a, tails_local_path = rr_tails_local_path a\<rparr>"

definition set_state :: "string \<Rightarrow> rr_state \<Rightarrow> world \<Rightarrow> world" where
  "set_state rid st w =
     emit (RevRegSetState rid st)
       (w\<lparr>rev_reg_recs := map (\<lambda>x. if rr_revoc_reg_id x = rid then x\<lparr>rr_state := st\<rparr> else x)
                              (rev_reg_recs w)\<rparr>)"

definition notify_revocation_reg_event :: "string option \<Rightarrow> int option \<Rightarrow> bool \<Rightarrow> world \<Rightarrow> world" where
  "notify_revocation_reg_event cd rev_reg_size auto_create_rev_reg w =
     emit (Notify cd rev_reg_size auto_create_rev_reg) w"

text \<open>
  The handler of \<^verbatim>\<open>StorageNotFoundError\<close> up to its retry test: with no posted
  registry either, two registries are asked for, of the size of the first of the existing
  records in sorted order when there is one.
\<close>

definition request_registries :: "string option \<Rightarrow> world \<Rightarrow> world" where
  "request_registries cd w =
     (if query_by_cred_def_id (rev_reg_recs w) cd (Some RR_POSTED) = [] then
        (let old_rev_reg_recs = sorted_records (query_by_cred_def_id (rev_reg_recs w) cd None);
             rev_reg_size = (if old_rev_reg_recs \<noteq> [] then Some (rr_max_cred_num (hd old_rev_reg_recs))
                             else None)
         in notify_revocation_reg_event cd rev_reg_size True
              (notify_revocation_reg_event cd rev_reg_size True w))
      else w)"

text \<open>The end of \<^verbatim>\<open>issue_credential\<close>, from the assignment of the state on.\<close>

definition issue_finish ::
  "profile \<Rightarrow> cred_ex \<Rightarrow> string option \<Rightarrow> world \<Rightarrow> (error + credential_issue) \<times> world \<times> cred_ex" where
  "issue_finish p r comment w =
     (let (r1, w1) = save p ''issue credential'' (r\<lparr>state := Some ISSUED\<rparr>) w in
      case credential r1 of
        None \<Rightarrow> (Inl AttributeError, w1, r1)
      | Some cred \<Rightarrow>
          (let (mid, w2) = fresh_id p w1;
               message = assign_trace_decorator (trace r1)
                 \<lparr>msg_id = mid, thid = thread_id r1, trace_dec = False,
                  i_comment = comment, credentials_attach = Some [cred]\<rparr>
           in (Inr message, w2, r1)))"

text \<open>
  One pass through the body of \<^verbatim>\<open>issue_credential\<close>. It ends by returning or raising
  (\<open>Finished\<close>), or at one of the two retry tests: no active registry
  (\<open>NoActiveRegistry\<close>), or the issuer found the registry full (\<open>RegistryFull\<close>).
\<close>

datatype issue_outcome =
    Finished "(error + credential_issue) \<times> world \<times> cred_ex"
  | NoActiveRegistry world cred_ex
  | RegistryFull world cred_ex

text \<open>The steps after the issuer has returned the credential and its revocation id.\<close>

definition after_create ::
  "profile \<Rightarrow> cred_ex \<Rightarrow> string option \<Rightarrow> rev_reg_rec option \<Rightarrow> json \<Rightarrow> string option \<Rightarrow> world
     \<Rightarrow> (error + credential_issue) \<times> world \<times> cred_ex" where
  "after_create p r comment active cred_json rev_id w =
     (let r1 = r\<lparr>revocation_id := rev_id\<rparr> in
      case active of
        None \<Rightarrow> issue_finish p (r1\<lparr>credential := Some cred_json\<rparr>) comment w
      | Some a \<Rightarrow>
          (case rev_id of
             None \<Rightarrow> (Inl TypeError, w, r1)
           | Some s \<Rightarrow>
               (case py_int s of
                  None \<Rightarrow> (Inl ValueError, w, r1)
                | Some n \<Rightarrow>
                    if max_creds (get_registry a) = n then
                      issue_finish p (r1\<lparr>credential := Some cred_json\<rparr>) comment
                        (notify_revocation_reg_event (credential_definition_id r1)
                           (Some (rr_max_cred_num a)) True
                           (set_state (rr_revoc_reg_id a) RR_FULL w))
                    else issue_finish p (r1\<lparr>credential := Some cred_json\<rparr>) comment w)))"

text \<open>The call on the issuer and the handling of its answer.\<close>

definition call_issuer ::
  "profile \<Rightarrow> cred_ex \<Rightarrow> string option \<Rightarrow> schema \<Rightarrow> json \<Rightarrow> json \<Rightarrow> rev_reg_rec option
     \<Rightarrow> string option \<Rightarrow> world \<Rightarrow> issue_outcome" where
  "call_issuer p r comment sch cred_offer_ser cred_req_ser active tails_path w =
     (case credential_proposal_dict r of
        None \<Rightarrow> Finished (Inl AttributeError, w, r)
      | Some proposal \<Rightarrow>
          (case p_credential_proposal proposal of
             None \<Rightarrow> Finished (Inl AttributeError, w, r)
           | Some preview \<Rightarrow>
               (let credential_values = map (\<lambda>a. (attr_name a, attr_value a)) preview;
                    w1 = emit (IssuerCreateCredential (credential_exchange_id r) (revoc_reg_id r)) w
                in
                case create_credential p w sch cred_offer_ser cred_req_ser credential_values
                       (credential_exchange_id r) (revoc_reg_id r) tails_path of
                  Inr (cred_json, rev_id) \<Rightarrow>
                    Finished (after_create p r comment active cred_json rev_id w1)
                | Inl e \<Rightarrow>
                    if e = IndyIssuerRevocationRegistryFullError then
                      (case active of
                         None \<Rightarrow> Finished (Inl UnboundLocalError, w1, r)
                       | Some a \<Rightarrow> RegistryFull (set_state (rr_revoc_reg_id a) RR_FULL w1) r)
                    else Finished (Inl e, w1, r))))"

definition issue_attempt :: "profile \<Rightarrow> cred_ex \<Rightarrow> string option \<Rightarrow> world \<Rightarrow> issue_outcome" where
  "issue_attempt p r comment w =
     (if state r \<noteq> Some REQUEST_RECEIVED
      then Finished (Inl (WrongState (credential_exchange_id r) (state r) REQUEST_RECEIVED), w, r)
      else if truthy (credential r) then Finished (issue_finish p r comment (emit LogWarning w))
      else
        case credential_offer r of
          None \<Rightarrow> Finished (Inl AttributeError, w, r)
        | Some cred_offer_ser \<Rightarrow>
            (case credential_request r of
               None \<Rightarrow> Finished (Inl AttributeError, w, r)
             | Some cred_req_ser \<Rightarrow>
                 (let sch = get_schema p (schema_id r);
                      credential_definition = get_credential_definition p (credential_definition_id r)
                  in
                  if cd_revocation credential_definition then
                    (case get_active_issuer_rev_reg_record (rev_reg_recs w) (credential_definition_id r) of
                       Inr a \<Rightarrow>
                         call_issuer p (r\<lparr>revoc_reg_id := Some (rr_revoc_reg_id a)\<rparr>) comment sch
                           cred_offer_ser cred_req_ser (Some a) (tails_local_path (get_registry a))
                           (emit (FetchTails (rr_revoc_reg_id a)) w)
                     | Inl e \<Rightarrow>
                         if e = StorageNotFoundError
                         then NoActiveRegistry (request_registries (credential_definition_id r) w) r
                         else Finished (Inl e, w, r))
                  else call_issuer p r comment sch cred_offer_ser cred_req_ser None None w)))"

text \<open>
  While this flow sleeps, the other tasks of the agent run; \<open>env\<close> is what they do to
  the world in that time (the revocation subsystem posting a registry, for one).
\<close>

definition sleep :: "(world \<Rightarrow> world) \<Rightarrow> nat \<Rightarrow> world \<Rightarrow> world" where
  "sleep env secs w = env (emit (Sleep secs) w)"

function issue_credential ::
  "(world \<Rightarrow> world) \<Rightarrow> profile \<Rightarrow> cred_ex \<Rightarrow> string option \<Rightarrow> int \<Rightarrow> world
     \<Rightarrow> (error + credential_issue) \<times> world \<times> cred_ex" where
  "issue_credential env p r comment retries w =
     (case issue_attempt p r comment w of
        Finished res \<Rightarrow> res
      | NoActiveRegistry w' r' \<Rightarrow>
          if retries > 0 then issue_credential env p r' comment (retries - 1) (sleep env 2 w')
          else (Inl (NoActiveRevocationRegistry (credential_definition_id r')), w', r')
      | RegistryFull w' r' \<Rightarrow>
          if retries > 0 then issue_credential env p r' comment (retries - 1) (sleep env 1 w')
          else (Inl IndyIssuerRevocationRegistryFullError, w', r'))"
  by pat_completeness auto
termination
  by (relation "measure (\<lambda>(env, p, r, comment, retries, w). nat retries)") auto

declare issue_credential.simps [simp del]

subsection \<open>Storing and acknowledging\<close>

definition mime_types :: "credential_preview \<Rightarrow> json" where
  "mime_types pv =
     map (\<lambda>a. (attr_name a, the (attr_mime_type a))) (filter (\<lambda>a. truthy (attr_mime_type a)) pv)"

definition store_credential ::
  "profile \<Rightarrow> cred_ex \<Rightarrow> string option \<Rightarrow> world \<Rightarrow> (error + unit) \<times> world \<times> cred_ex" where
  "store_credential p r credential_id_arg w =
     (if state r \<noteq> Some CREDENTIAL_RECEIVED
      then (Inl (WrongState (credential_exchange_id r) (state r) CREDENTIAL_RECEIVED), w, r)
      else
        case raw_credential r of
          None \<Rightarrow> (Inl AttributeError, w, r)
        | Some raw \<Rightarrow>
            (let credential_definition = get_credential_definition p (map_of raw ''cred_def_id'');
                 revoc_reg_def = (if truthy (map_of raw ''rev_reg_id'')
                                  then Some (get_revoc_reg_def p (the (map_of raw ''rev_reg_id'')))
                                  else None);
                 mts = (case credential_proposal_dict r of
                          None \<Rightarrow> None
                        | Some proposal \<Rightarrow> map_option mime_types (p_credential_proposal proposal));
                 w1 = (if truthy revoc_reg_def then emit (FetchTails (the (map_of raw ''rev_reg_id''))) w
                       else w);
                 w2 = emit (HolderStoreCredential credential_id_arg) w1
             in
             case store_credential_in_wallet p w1 credential_definition raw
                    (credential_request_metadata r) credential_id_arg of
               Inl e \<Rightarrow> (Inl e, w2, r)
             | Inr cid \<Rightarrow>
                 (let cred = get_credential p cid;
                      r1 = r\<lparr>credential_id := Some cid, credential := Some cred,
                             revoc_reg_id := map_of cred ''rev_reg_id'',
                             revocation_id := map_of cred ''cred_rev_id''\<rparr>;
                      (r2, w3) = save p ''store credential'' r1 w2
                  in (Inr (), w3, r2))))"

text \<open>
  \<^verbatim>\<open>send_credential_ack\<close>; the store of the model does not fail, so the handler of
  \<^verbatim>\<open>StorageError\<close> has no branch here.
\<close>

definition send_credential_ack ::
  "profile \<Rightarrow> cred_ex \<Rightarrow> world \<Rightarrow> credential_ack \<times> world \<times> cred_ex" where
  "send_credential_ack p r w =
     (let (mid, w1) = fresh_id p w;
          message = assign_trace_decorator (trace r)
            \<lparr>msg_id = mid, thid = thread_id r, trace_dec = False, pthid = parent_thread_id r\<rparr>;
          (r1, w2) = save p ''ack credential'' (r\<lparr>state := Some ACKED\<rparr>) w1;
          w3 = (if auto_remove r1 then delete_record r1 w2 else w2);
          w4 = (if has_responder p then emit (SendReply (msg_id message) (connection_id r1)) w3
                else emit LogWarning w3)
      in (message, w4, r1))"


section \<open>A concrete agent\<close>

text \<open>
  The schema of the example has the attributes name, date and id; its cred def supports
  revocation; the issuer hands out slot 10 of a registry.
\<close>

definition ex_offer :: "string \<Rightarrow> json" where
  "ex_offer cd = [(''schema_id'', ''S1''), (''cred_def_id'', cd), (''nonce'', ''42'')]"

definition ex_credential :: json where
  "ex_credential = [(''cred_def_id'', ''CD1''), (''rev_reg_id'', ''R1''), (''cred_rev_id'', ''10'')]"

definition ex_request :: json where
  "ex_request = [(''prover_did'', ''did:ex:h'')]"

definition ex_profile :: profile where
  "ex_profile =
     \<lparr>preserve_exchange_records = True,
      auto_respond_credential_proposal = False,
      auto_respond_credential_request = False,
      has_cache = False,
      has_responder = True,
      uuid4 = (\<lambda>n. CHR ''u'' # replicate n CHR ''i''),
      credential_definition_id2schema_id = (\<lambda>cd. ''S1''),
      get_schema = (\<lambda>sid. \<lparr>attrNames = [''name'', ''date'', ''id'']\<rparr>),
      get_credential_definition = (\<lambda>cd. \<lparr>cd_revocation = True\<rparr>),
      get_revoc_reg_def = (\<lambda>rid. [(''id'', rid)]),
      create_credential_offer = ex_offer,
      create_credential = (\<lambda>w sch off req vals xid rid tails. Inr (ex_credential, Some ''10'')),
      create_credential_request = (\<lambda>off cd did. ([(''prover_did'', did)], [(''nonce'', ''1'')])),
      store_credential_in_wallet = (\<lambda>w cd raw md cid. Inr ''cred1''),
      get_credential = (\<lambda>cid. ex_credential)\<rparr>"

definition ex_preview :: credential_preview where
  "ex_preview =
     [\<lparr>attr_name = ''name'', attr_value = ''Alice'', attr_mime_type = None\<rparr>,
      \<lparr>attr_name = ''date'', attr_value = ''2021-01-01'', attr_mime_type = None\<rparr>,
      \<lparr>attr_name = ''id'', attr_value = ''7'', attr_mime_type = None\<rparr>]"

definition ex_proposal :: "credential_preview \<Rightarrow> string option \<Rightarrow> credential_proposal" where
  "ex_proposal pv cd =
     \<lparr>msg_id = ''m0'', thid = None, trace_dec = False, p_comment = None,
      p_credential_proposal = Some pv, p_schema_id = None, p_schema_issuer_did = None,
      p_schema_name = Some ''identification schema'', p_schema_version = None,
      p_cred_def_id = cd, p_issuer_did = None\<rparr>"

text \<open>A stored exchange on connection c1 and thread t1, in a given state.\<close>

definition ex_record :: "cx_state option \<Rightarrow> cred_ex" where
  "ex_record st =
     new_cred_ex\<lparr>credential_exchange_id := Some ''x1'', connection_id := Some ''c1'',
       thread_id := Some ''t1'', state := st,
       credential_proposal_dict := Some (ex_proposal ex_preview None),
       credential_offer := Some (ex_offer ''CD1''), schema_id := Some ''S1'',
       credential_definition_id := Some ''CD1''\<rparr>"

definition ex_sent_cred_defs :: "json list" where
  "ex_sent_cred_defs =
     [[(''schema_name'', ''identification schema''), (''cred_def_id'', ''CD1''), (''epoch'', ''100'')],
      [(''schema_name'', ''identification schema''), (''cred_def_id'', ''CD2''), (''epoch'', ''200'')],
      [(''schema_name'', ''other schema''), (''cred_def_id'', ''CD3''), (''epoch'', ''300'')]]"

definition ex_rev_reg :: "string \<Rightarrow> rr_state \<Rightarrow> int \<Rightarrow> nat \<Rightarrow> rev_reg_rec" where
  "ex_rev_reg rid st n k =
     \<lparr>rr_revoc_reg_id = rid, rr_cred_def_id = ''CD1'', rr_state = st, rr_max_cred_num = n,
      rr_tails_local_path = Some ''/tails'', rr_created_at = k\<rparr>"

definition ex_world :: "cred_ex list \<Rightarrow> rev_reg_rec list \<Rightarrow> world" where
  "ex_world recs regs =
     \<lparr>cx_store = recs, sent_cred_defs = ex_sent_cred_defs, rev_reg_recs = regs,
      offer_cache = [], request_cache = [], events = [], uuid_count = 0\<rparr>"

definition ex_issue :: credential_issue where
  "ex_issue =
     \<lparr>msg_id = ''m1'', thid = Some ''t1'', trace_dec = False, i_comment = None,
      credentials_attach = Some [ex_credential]\<rparr>"

definition ex_request_message :: credential_request where
  "ex_request_message =
     \<lparr>msg_id = ''m2'', thid = Some ''t1'', trace_dec = False, requests_attach = Some [ex_request]\<rparr>"

definition ex_problem_report :: credential_problem_report where
  "ex_problem_report =
     \<lparr>msg_id = ''m3'', thid = Some ''t1'', trace_dec = False,
      description = [(''code'', ''abandoned-consent''), (''en'', ''user declined'')]\<rparr>"

definition ex_offer_message :: "string \<Rightarrow> credential_offer" where
  "ex_offer_message cd =
     \<lparr>msg_id = ''m4'', thid = Some ''t1'', trace_dec = False, o_comment = None,
      o_credential_preview = Some ex_preview, o_offers_attach = [ex_offer cd]\<rparr>"

text \<open>
  An exchange in state \<open>OFFER_RECEIVED\<close> that already carries a request, and what a
  first call of \<^verbatim>\<open>create_request\<close> leaves of the world and of the record.
\<close>

definition ex_requested :: cred_ex where
  "ex_requested = (ex_record (Some OFFER_RECEIVED))\<lparr>credential_request := Some ex_request\<rparr>"

definition ex_after_request :: "world \<times> cred_ex" where
  "ex_after_request = snd (create_request ex_profile ex_requested ''did:ex:h'' (ex_world [] []))"

text \<open>
  What the revocation subsystem does in the example while a flow sleeps: it has the
  registry R1, of capacity 10, posted and active.
\<close>

definition ex_env :: "world \<Rightarrow> world" where
  "ex_env w = w\<lparr>rev_reg_recs := [ex_rev_reg ''R1'' RR_ACTIVE 10 2]\<rparr>"

section \<open>Properties of the store\<close>

lemma upsert_mem: "r \<in> set (upsert i r xs)"
  by (induction xs) auto

lemma save_record:
  "fst (save p reason r w) =
     r\<lparr>credential_exchange_id :=
          Some (case credential_exchange_id r of None \<Rightarrow> uuid4 p (uuid_count w) | Some i \<Rightarrow> i)\<rparr>"
  by (cases "credential_exchange_id r") (simp_all add: save_def Let_def)

lemma save_stored: "fst (save p reason r w) \<in> set (cx_store (snd (save p reason r w)))"
  by (cases "credential_exchange_id r") (simp_all add: save_def Let_def upsert_mem)

lemma save_events:
  "events (snd (save p reason r w)) =
     events w @ [Saved reason (credential_exchange_id (fst (save p reason r w)))]"
  by (cases "credential_exchange_id r") (simp_all add: save_def Let_def)

lemma save_other:
  "rev_reg_recs (snd (save p reason r w)) = rev_reg_recs w"
  "sent_cred_defs (snd (save p reason r w)) = sent_cred_defs w"
  by (cases "credential_exchange_id r"; simp add: save_def Let_def)+

lemma save_fields:
  "state (fst (save p reason r w)) = state r"
  "raw_credential (fst (save p reason r w)) = raw_credential r"
  "connection_id (fst (save p reason r w)) = connection_id r"
  "thread_id (fst (save p reason r w)) = thread_id r"
  "credential_request (fst (save p reason r w)) = credential_request r"
  "credential (fst (save p reason r w)) = credential r"
  "credential_definition_id (fst (save p reason r w)) = credential_definition_id r"
  "error_msg (fst (save p reason r w)) = error_msg r"
  "auto_remove (fst (save p reason r w)) = auto_remove r"
  "trace (fst (save p reason r w)) = trace r"
  "revoc_reg_id (fst (save p reason r w)) = revoc_reg_id r"
  "revocation_id (fst (save p reason r w)) = revocation_id r"
  by (simp_all add: save_record)

section \<open>Receiving a credential\<close>

lemma save_store:
  "cx_store (snd (save p reason r w)) =
     (case credential_exchange_id r of
        None \<Rightarrow> cx_store w @ [fst (save p reason r w)]
      | Some i \<Rightarrow> upsert i (fst (save p reason r w)) (cx_store w))"
  by (cases "credential_exchange_id r") (simp_all add: save_def Let_def)

text \<open>
  C1. \<^verbatim>\<open>receive_credential\<close> has no state guard. For a message with one credential
  attachment, whatever the state of the record found under the connection and the
  thread of the message, the flow returns that record with the credential attached as
  \<open>raw_credential\<close> and the state \<open>CREDENTIAL_RECEIVED\<close>, every other field as it was
  loaded, and writes it to the store under its exchange id, in the place of the record
  it loaded; the save is its only effect. It fails only when the lookup fails, with the
  error of the lookup, and then the world is as before.
\<close>

theorem receive_credential_any_state:
  assumes "or_empty (credentials_attach message) = [raw]"
  shows "case retrieve_by_connection_and_thread (cx_store w) conn (thread_id_of message) of
           Inl e \<Rightarrow> receive_credential p message conn w = (Inl e, w)
         | Inr r \<Rightarrow>
             (\<exists>r' w'. receive_credential p message conn w = (Inr r', w')
                \<and> r' = r\<lparr>raw_credential := Some raw, state := Some CREDENTIAL_RECEIVED,
                         credential_exchange_id :=
                           Some (case credential_exchange_id r of
                                   None \<Rightarrow> uuid4 p (uuid_count w) | Some i \<Rightarrow> i)\<rparr>
                \<and> cx_store w' =
                    (case credential_exchange_id r of
                       None \<Rightarrow> cx_store w @ [r'] | Some i \<Rightarrow> upsert i r' (cx_store w))
                \<and> events w' = events w @ [Saved ''receive credential'' (credential_exchange_id r')]
                \<and> state r' = Some CREDENTIAL_RECEIVED
                \<and> raw_credential r' = Some raw
                \<and> r' \<in> set (cx_store w'))"
proof (cases "retrieve_by_connection_and_thread (cx_store w) conn (thread_id_of message)")
  case (Inl e)
  with assms show ?thesis
    by (simp add: receive_credential_def)
next
  case (Inr r)
  let ?r1 = "r\<lparr>raw_credential := Some raw, state := Some CREDENTIAL_RECEIVED\<rparr>"
  let ?s = "save p ''receive credential'' ?r1 w"
  have run: "receive_credential p message conn w = (Inr (fst ?s), snd ?s)"
    using assms Inr by (simp add: receive_credential_def Let_def case_prod_beta)
  have rec: "fst ?s = r\<lparr>raw_credential := Some raw, state := Some CREDENTIAL_RECEIVED,
                         credential_exchange_id :=
                           Some (case credential_exchange_id r of
                                   None \<Rightarrow> uuid4 p (uuid_count w) | Some i \<Rightarrow> i)\<rparr>"
    by (simp add: save_record)
  have st: "cx_store (snd ?s) =
              (case credential_exchange_id r of
                 None \<Rightarrow> cx_store w @ [fst ?s] | Some i \<Rightarrow> upsert i (fst ?s) (cx_store w))"
    using save_store [of p "''receive credential''" ?r1 w] by simp
  have ev: "events (snd ?s) = events w @ [Saved ''receive credential'' (credential_exchange_id (fst ?s))]"
    by (rule save_events)
  have fl: "state (fst ?s) = Some CREDENTIAL_RECEIVED" "raw_credential (fst ?s) = Some raw"
    by (simp_all add: save_fields)
  have mem: "fst ?s \<in> set (cx_store (snd ?s))"
    by (rule save_stored)
  show ?thesis
    unfolding Inr sum.case run using rec st ev fl mem by blast
qed

theorem receive_credential_any_state_witness:
  "or_empty (credentials_attach ex_issue) = [ex_credential]
   \<and> (\<exists>r' w'. receive_credential ex_profile ex_issue ''c1''
                  (ex_world [ex_record (Some OFFER_RECEIVED)] []) = (Inr r', w')
                \<and> r' = (ex_record (Some OFFER_RECEIVED))
                         \<lparr>raw_credential := Some ex_credential, state := Some CREDENTIAL_RECEIVED\<rparr>
                \<and> cx_store w' = [r']
                \<and> events w' = [Saved ''receive credential'' (Some ''x1'')])"
proof -
  let ?w = "ex_world [ex_record (Some OFFER_RECEIVED)] []"
  have h: "or_empty (credentials_attach ex_issue) = [ex_credential]"
    by (simp add: or_empty_def ex_issue_def)
  have l: "retrieve_by_connection_and_thread (cx_store ?w) ''c1'' (thread_id_of ex_issue)
           = Inr (ex_record (Some OFFER_RECEIVED))"
    by (simp add: retrieve_by_connection_and_thread_def ex_world_def ex_record_def thread_id_of_def
        truthy_def ex_issue_def new_cred_ex_def)
  have f: "credential_exchange_id (ex_record (Some OFFER_RECEIVED)) = Some ''x1''"
    "cx_store ?w = [ex_record (Some OFFER_RECEIVED)]" "events ?w = []"
    by (simp_all add: ex_record_def new_cred_ex_def ex_world_def)
  have i: "(ex_record (Some OFFER_RECEIVED))
             \<lparr>raw_credential := Some ex_credential, state := Some CREDENTIAL_RECEIVED,
              credential_exchange_id := Some ''x1''\<rparr>
           = (ex_record (Some OFFER_RECEIVED))
               \<lparr>raw_credential := Some ex_credential, state := Some CREDENTIAL_RECEIVED\<rparr>"
    by (simp add: ex_record_def new_cred_ex_def)
  show ?thesis
    using h receive_credential_any_state [OF h, where w = ?w and conn = "''c1''" and p = ex_profile]
    unfolding l sum.case
    apply (simp add: f i)
    apply (elim exE conjE)
    apply (rule exI)
    apply (intro conjI)
      apply assumption+
    done
qed

text \<open>A record in state \<open>OFFER_RECEIVED\<close> is accepted and moved to \<open>CREDENTIAL_RECEIVED\<close>.\<close>

theorem receive_credential_unguarded_counterexample:
  "state (ex_record (Some OFFER_RECEIVED)) \<noteq> Some REQUEST_SENT
   \<and> map_sum id state (fst (receive_credential ex_profile ex_issue ''c1''
        (ex_world [ex_record (Some OFFER_RECEIVED)] []))) = Inr (Some CREDENTIAL_RECEIVED)"
  by (simp add: receive_credential_def retrieve_by_connection_and_thread_def ex_world_def
      ex_record_def thread_id_of_def truthy_def ex_issue_def new_cred_ex_def or_empty_def Let_def
      case_prod_beta save_fields)

section \<open>State guards\<close>

lemma issue_attempt_wrong_state:
  "state r \<noteq> Some REQUEST_RECEIVED \<Longrightarrow>
   issue_attempt p r comment w =
     Finished (Inl (WrongState (credential_exchange_id r) (state r) REQUEST_RECEIVED), w, r)"
  by (simp add: issue_attempt_def)

text \<open>
  C2. \<^verbatim>\<open>create_request\<close> on a record whose state is not \<open>OFFER_RECEIVED\<close>,
  \<^verbatim>\<open>issue_credential\<close> on a record whose state is not \<open>REQUEST_RECEIVED\<close> and
  \<^verbatim>\<open>store_credential\<close> on a record whose state is not \<open>CREDENTIAL_RECEIVED\<close> each fail
  with the error that carries the exchange id, the observed state and the required state,
  and leave the record and the world as they were.
\<close>

theorem wrong_state_guards:
  "(state r \<noteq> Some OFFER_RECEIVED \<longrightarrow>
      create_request p r holder_did w =
        (Inl (WrongState (credential_exchange_id r) (state r) OFFER_RECEIVED), w, r))
   \<and> (state r \<noteq> Some REQUEST_RECEIVED \<longrightarrow>
      issue_credential env p r comment retries w =
        (Inl (WrongState (credential_exchange_id r) (state r) REQUEST_RECEIVED), w, r))
   \<and> (state r \<noteq> Some CREDENTIAL_RECEIVED \<longrightarrow>
      store_credential p r credential_id_arg w =
        (Inl (WrongState (credential_exchange_id r) (state r) CREDENTIAL_RECEIVED), w, r))"
  by (simp add: create_request_def store_credential_def issue_credential.simps
      issue_attempt_wrong_state)

theorem wrong_state_guards_witness:
  "create_request ex_profile (ex_record (Some REQUEST_SENT)) ''did:ex:h'' (ex_world [] []) =
     (Inl (WrongState (Some ''x1'') (Some REQUEST_SENT) OFFER_RECEIVED), ex_world [] [], ex_record (Some REQUEST_SENT))
   \<and> issue_credential id ex_profile (ex_record None) None 5 (ex_world [] []) =
     (Inl (WrongState (Some ''x1'') None REQUEST_RECEIVED), ex_world [] [], ex_record None)
   \<and> store_credential ex_profile (ex_record (Some ACKED)) None (ex_world [] []) =
     (Inl (WrongState (Some ''x1'') (Some ACKED) CREDENTIAL_RECEIVED), ex_world [] [], ex_record (Some ACKED))"
  using wrong_state_guards [of "ex_record (Some REQUEST_SENT)" ex_profile "''did:ex:h''" "ex_world [] []"]
    wrong_state_guards [of "ex_record None" ex_profile _ "ex_world [] []" id None 5]
    wrong_state_guards [of "ex_record (Some ACKED)" ex_profile _ "ex_world [] []" _ _ _ None]
  by (simp add: ex_record_def new_cred_ex_def)

section \<open>Problem reports\<close>

text \<open>
  C8. For every record found under the connection and thread of a problem report,
  whatever its state, \<^verbatim>\<open>receive_problem_report\<close> returns that record with the state
  cleared and \<open>error_msg\<close> set to the code, a colon and a blank, and the English text, the
  code being \<open>issuance-abandoned\<close> when the description has none, so the message is never
  empty; every other field is as it was loaded. The record is written to the store under
  its exchange id, in the place of the record that was loaded, and is in the store
  afterwards whatever its \<open>auto_remove\<close> flag; the only effect is that save.
\<close>

theorem receive_problem_report_abandons:
  assumes "retrieve_by_connection_and_thread (cx_store w) conn (thread_id_of message) = Inr r"
  shows "\<exists>r' w' code.
           receive_problem_report p message conn w = (Inr r', w')
         \<and> code = (case map_of (description message) ''code'' of
                      None \<Rightarrow> ''issuance-abandoned'' | Some c \<Rightarrow> c)
         \<and> r' = r\<lparr>state := None,
                   error_msg := Some (code @ '': '' @
                     (case map_of (description message) ''en'' of None \<Rightarrow> code | Some t \<Rightarrow> t)),
                   credential_exchange_id :=
                     Some (case credential_exchange_id r of
                             None \<Rightarrow> uuid4 p (uuid_count w) | Some i \<Rightarrow> i)\<rparr>
         \<and> cx_store w' =
             (case credential_exchange_id r of
                None \<Rightarrow> cx_store w @ [r'] | Some i \<Rightarrow> upsert i r' (cx_store w))
         \<and> state r' = None
         \<and> error_msg r' = Some (code @ '': '' @
               (case map_of (description message) ''en'' of None \<Rightarrow> code | Some t \<Rightarrow> t))
         \<and> error_msg r' \<noteq> Some []
         \<and> r' \<in> set (cx_store w')
         \<and> events w' = events w @ [Saved ''received problem report'' (credential_exchange_id r')]"
proof -
  let ?code = "case map_of (description message) ''code'' of
                 None \<Rightarrow> ''issuance-abandoned'' | Some c \<Rightarrow> c"
  let ?msg = "?code @ '': '' @
               (case map_of (description message) ''en'' of None \<Rightarrow> ?code | Some t \<Rightarrow> t)"
  let ?r1 = "r\<lparr>state := None, error_msg := Some ?msg\<rparr>"
  let ?s = "save p ''received problem report'' ?r1 w"
  have run: "receive_problem_report p message conn w = (Inr (fst ?s), snd ?s)"
    using assms
    by (simp add: receive_problem_report_def Let_def case_prod_beta dict_get_def
        ISSUANCE_ABANDONED_def)
  have rec: "fst ?s = r\<lparr>state := None, error_msg := Some ?msg,
                         credential_exchange_id :=
                           Some (case credential_exchange_id r of
                                   None \<Rightarrow> uuid4 p (uuid_count w) | Some i \<Rightarrow> i)\<rparr>"
    by (simp add: save_record)
  have st: "cx_store (snd ?s) =
              (case credential_exchange_id r of
                 None \<Rightarrow> cx_store w @ [fst ?s] | Some i \<Rightarrow> upsert i (fst ?s) (cx_store w))"
    using save_store [of p "''received problem report''" ?r1 w] by simp
  have ev: "events (snd ?s) =
              events w @ [Saved ''received problem report'' (credential_exchange_id (fst ?s))]"
    by (rule save_events)
  have fl: "state (fst ?s) = None" "error_msg (fst ?s) = Some ?msg" "error_msg (fst ?s) \<noteq> Some []"
    by (simp_all add: save_fields)
  have mem: "fst ?s \<in> set (cx_store (snd ?s))"
    by (rule save_stored)
  show ?thesis
    unfolding run using rec st ev fl mem by blast
qed

theorem receive_problem_report_abandons_witness:
  "\<exists>r' w'.
     receive_problem_report ex_profile ex_problem_report ''c1''
       (ex_world [ex_record (Some OFFER_RECEIVED)] []) = (Inr r', w')
     \<and> r' = (ex_record None)\<lparr>error_msg := Some ''abandoned-consent: user declined''\<rparr>
     \<and> cx_store w' = [r']"
proof -
  let ?w = "ex_world [ex_record (Some OFFER_RECEIVED)] []"
  have l: "retrieve_by_connection_and_thread (cx_store ?w) ''c1'' (thread_id_of ex_problem_report)
           = Inr (ex_record (Some OFFER_RECEIVED))"
    by (simp add: retrieve_by_connection_and_thread_def ex_world_def ex_record_def thread_id_of_def
        truthy_def ex_problem_report_def new_cred_ex_def)
  have f: "credential_exchange_id (ex_record (Some OFFER_RECEIVED)) = Some ''x1''"
    "cx_store ?w = [ex_record (Some OFFER_RECEIVED)]"
    "description ex_problem_report = [(''code'', ''abandoned-consent''), (''en'', ''user declined'')]"
    by (simp_all add: ex_record_def new_cred_ex_def ex_world_def ex_problem_report_def)
  have i: "(ex_record (Some OFFER_RECEIVED))
             \<lparr>state := None, error_msg := Some ''abandoned-consent: user declined'',
              credential_exchange_id := Some ''x1''\<rparr>
           = (ex_record None)\<lparr>error_msg := Some ''abandoned-consent: user declined''\<rparr>"
    by (simp add: ex_record_def new_cred_ex_def)
  show ?thesis
    using receive_problem_report_abandons [OF l, of ex_profile]
    apply (simp add: f i)
    apply (elim exE conjE)
    apply (rule exI)
    apply (intro conjI)
     apply assumption+
    done
qed

section \<open>Receiving a request\<close>

text \<open>
  C10. A request passes the assertion at the head of \<^verbatim>\<open>receive_request\<close> when it has one
  attachment. For such a request: a record stored under the connection and the thread
  gets the request and the state \<open>REQUEST_RECEIVED\<close>. When there is none, the flow falls
  back to the record of that thread that has no connection: it returns that record with
  the inbound connection bound to it, the request attached and the state
  \<open>REQUEST_RECEIVED\<close>, every other field as it was loaded, and writes it to the store under
  its exchange id, in the place of the record that was loaded. The flow fails exactly when
  both lookups miss, and then the world is as before.
\<close>

theorem receive_request_lookup:
  assumes "or_empty (requests_attach message) = [req]"
  shows "(case retrieve_by_connection_and_thread (cx_store w) conn (thread_id_of message) of
            Inr r \<Rightarrow>
              (\<exists>r' w'. receive_request p message conn w = (Inr r', w')
                 \<and> r' = r\<lparr>credential_request := Some req, state := Some REQUEST_RECEIVED,
                          credential_exchange_id :=
                            Some (case credential_exchange_id r of
                                    None \<Rightarrow> uuid4 p (uuid_count w) | Some i \<Rightarrow> i)\<rparr>
                 \<and> cx_store w' =
                     (case credential_exchange_id r of
                        None \<Rightarrow> cx_store w @ [r'] | Some i \<Rightarrow> upsert i r' (cx_store w))
                 \<and> events w' = events w @
                     [Saved ''receive credential request'' (credential_exchange_id r')]
                 \<and> r' \<in> set (cx_store w'))
          | Inl e \<Rightarrow>
              (case retrieve_by_thread_no_connection (cx_store w) (thread_id_of message) of
                 Inr r \<Rightarrow>
                   connection_id r = None \<and>
                   (\<exists>r' w'. receive_request p message conn w = (Inr r', w')
                      \<and> r' = r\<lparr>connection_id := Some conn, credential_request := Some req,
                               state := Some REQUEST_RECEIVED,
                               credential_exchange_id :=
                                 Some (case credential_exchange_id r of
                                         None \<Rightarrow> uuid4 p (uuid_count w) | Some i \<Rightarrow> i)\<rparr>
                      \<and> cx_store w' =
                          (case credential_exchange_id r of
                             None \<Rightarrow> cx_store w @ [r'] | Some i \<Rightarrow> upsert i r' (cx_store w))
                      \<and> events w' = events w @
                          [Saved ''receive credential request'' (credential_exchange_id r')]
                      \<and> connection_id r' = Some conn
                      \<and> state r' = Some REQUEST_RECEIVED
                      \<and> credential_request r' = Some req
                      \<and> r' \<in> set (cx_store w'))
               | Inl e' \<Rightarrow> receive_request p message conn w = (Inl CannotStartFromRequest, w)))
       \<and> (isl (fst (receive_request p message conn w)) \<longleftrightarrow>
            isl (retrieve_by_connection_and_thread (cx_store w) conn (thread_id_of message))
          \<and> isl (retrieve_by_thread_no_connection (cx_store w) (thread_id_of message)))"
proof (cases "retrieve_by_connection_and_thread (cx_store w) conn (thread_id_of message)")
  case (Inr r)
  let ?r1 = "r\<lparr>credential_request := Some req, state := Some REQUEST_RECEIVED\<rparr>"
  let ?s = "save p ''receive credential request'' ?r1 w"
  have run: "receive_request p message conn w = (Inr (fst ?s), snd ?s)"
    using assms Inr by (simp add: receive_request_def Let_def case_prod_beta)
  have rec: "fst ?s = r\<lparr>credential_request := Some req, state := Some REQUEST_RECEIVED,
                          credential_exchange_id :=
                            Some (case credential_exchange_id r of
                                    None \<Rightarrow> uuid4 p (uuid_count w) | Some i \<Rightarrow> i)\<rparr>"
    by (simp add: save_record)
  have st: "cx_store (snd ?s) =
              (case credential_exchange_id r of
                 None \<Rightarrow> cx_store w @ [fst ?s] | Some i \<Rightarrow> upsert i (fst ?s) (cx_store w))"
    using save_store [of p "''receive credential request''" ?r1 w] by simp
  have ev: "events (snd ?s) =
              events w @ [Saved ''receive credential request'' (credential_exchange_id (fst ?s))]"
    by (rule save_events)
  have mem: "fst ?s \<in> set (cx_store (snd ?s))"
    by (rule save_stored)
  have ex: "\<exists>r' w'. receive_request p message conn w = (Inr r', w')
                 \<and> r' = r\<lparr>credential_request := Some req, state := Some REQUEST_RECEIVED,
                          credential_exchange_id :=
                            Some (case credential_exchange_id r of
                                    None \<Rightarrow> uuid4 p (uuid_count w) | Some i \<Rightarrow> i)\<rparr>
                 \<and> cx_store w' =
                     (case credential_exchange_id r of
                        None \<Rightarrow> cx_store w @ [r'] | Some i \<Rightarrow> upsert i r' (cx_store w))
                 \<and> events w' = events w @
                     [Saved ''receive credential request'' (credential_exchange_id r')]
                 \<and> r' \<in> set (cx_store w')"
    unfolding run using rec st ev mem by blast
  have ok: "\<not> isl (fst (receive_request p message conn w))"
    by (simp add: run)
  show ?thesis
    unfolding Inr sum.case using ex ok by simp
next
  case (Inl e)
  have e: "e = StorageNotFoundError"
    using Inl by (simp add: retrieve_by_connection_and_thread_def split: option.splits)
  show ?thesis
  proof (cases "retrieve_by_thread_no_connection (cx_store w) (thread_id_of message)")
    case (Inr r)
    let ?r1 = "r\<lparr>connection_id := Some conn, credential_request := Some req,
                 state := Some REQUEST_RECEIVED\<rparr>"
    let ?s = "save p ''receive credential request'' ?r1 w"
    have nc: "connection_id r = None"
      using Inr
      by (auto simp: retrieve_by_thread_no_connection_def find_Some_iff split: option.splits)
    have run: "receive_request p message conn w = (Inr (fst ?s), snd ?s)"
      using assms Inl Inr e by (simp add: receive_request_def Let_def case_prod_beta)
    have rec: "fst ?s = r\<lparr>connection_id := Some conn, credential_request := Some req,
                            state := Some REQUEST_RECEIVED,
                            credential_exchange_id :=
                              Some (case credential_exchange_id r of
                                      None \<Rightarrow> uuid4 p (uuid_count w) | Some i \<Rightarrow> i)\<rparr>"
      by (simp add: save_record)
    have st: "cx_store (snd ?s) =
                (case credential_exchange_id r of
                   None \<Rightarrow> cx_store w @ [fst ?s] | Some i \<Rightarrow> upsert i (fst ?s) (cx_store w))"
      using save_store [of p "''receive credential request''" ?r1 w] by simp
    have ev: "events (snd ?s) =
                events w @ [Saved ''receive credential request'' (credential_exchange_id (fst ?s))]"
      by (rule save_events)
    have fl: "connection_id (fst ?s) = Some conn" "state (fst ?s) = Some REQUEST_RECEIVED"
      "credential_request (fst ?s) = Some req"
      by (simp_all add: save_fields)
    have mem: "fst ?s \<in> set (cx_store (snd ?s))"
      by (rule save_stored)
    have ex: "\<exists>r' w'. receive_request p message conn w = (Inr r', w')
                      \<and> r' = r\<lparr>connection_id := Some conn, credential_request := Some req,
                               state := Some REQUEST_RECEIVED,
                               credential_exchange_id :=
                                 Some (case credential_exchange_id r of
                                         None \<Rightarrow> uuid4 p (uuid_count w) | Some i \<Rightarrow> i)\<rparr>
                      \<and> cx_store w' =
                          (case credential_exchange_id r of
                             None \<Rightarrow> cx_store w @ [r'] | Some i \<Rightarrow> upsert i r' (cx_store w))
                      \<and> events w' = events w @
                          [Saved ''receive credential request'' (credential_exchange_id r')]
                      \<and> connection_id r' = Some conn
                      \<and> state r' = Some REQUEST_RECEIVED
                      \<and> credential_request r' = Some req
                      \<and> r' \<in> set (cx_store w')"
      unfolding run using rec st ev fl mem by blast
    have ok: "\<not> isl (fst (receive_request p message conn w))"
      by (simp add: run)
    show ?thesis
      unfolding Inl Inr sum.case using nc ex ok by simp
  next
    case Inl2: (Inl e')
    have e': "e' = StorageNotFoundError"
      using Inl2 by (simp add: retrieve_by_thread_no_connection_def split: option.splits)
    have run: "receive_request p message conn w = (Inl CannotStartFromRequest, w)"
      using assms Inl Inl2 e e' by (simp add: receive_request_def Let_def)
    show ?thesis
      unfolding Inl Inl2 sum.case run by simp
  qed
qed

theorem receive_request_lookup_witness:
  "or_empty (requests_attach ex_request_message) = [ex_request]
   \<and> (\<exists>r' w'. receive_request ex_profile ex_request_message ''c1''
          (ex_world [(ex_record (Some OFFER_SENT))\<lparr>connection_id := None\<rparr>] []) = (Inr r', w')
        \<and> r' = (ex_record (Some REQUEST_RECEIVED))\<lparr>credential_request := Some ex_request\<rparr>
        \<and> cx_store w' = [r'])"
proof -
  let ?r = "(ex_record (Some OFFER_SENT))\<lparr>connection_id := None\<rparr>"
  let ?w = "ex_world [?r] []"
  have h: "or_empty (requests_attach ex_request_message) = [ex_request]"
    by (simp add: or_empty_def ex_request_message_def)
  have l1: "retrieve_by_connection_and_thread (cx_store ?w) ''c1'' (thread_id_of ex_request_message)
              = Inl StorageNotFoundError"
    by (simp add: retrieve_by_connection_and_thread_def ex_world_def ex_record_def thread_id_of_def
        truthy_def ex_request_message_def new_cred_ex_def)
  have l2: "retrieve_by_thread_no_connection (cx_store ?w) (thread_id_of ex_request_message) = Inr ?r"
    by (simp add: retrieve_by_thread_no_connection_def ex_world_def ex_record_def thread_id_of_def
        truthy_def ex_request_message_def new_cred_ex_def)
  have f: "credential_exchange_id ?r = Some ''x1''" "cx_store ?w = [?r]"
    by (simp_all add: ex_record_def new_cred_ex_def ex_world_def)
  have i: "(ex_record (Some OFFER_SENT))\<lparr>connection_id := Some ''c1'', credential_request := Some ex_request,
               state := Some REQUEST_RECEIVED, credential_exchange_id := Some ''x1''\<rparr>
           = (ex_record (Some REQUEST_RECEIVED))\<lparr>credential_request := Some ex_request\<rparr>"
    by (simp add: ex_record_def new_cred_ex_def)
  show ?thesis
    using h receive_request_lookup [OF h, where p = ex_profile and conn = "''c1''" and w = ?w]
    unfolding l1 l2 sum.case
    apply (simp add: f i)
    apply (elim exE conjE)
    apply (rule exI)
    apply (intro conjI)
     apply assumption+
    done
qed

section \<open>Calling a flow again\<close>

lemma fresh_id_events: "events (snd (fresh_id p w)) = events w"
  by (simp add: fresh_id_def)

lemma fresh_id_recs: "rev_reg_recs (snd (fresh_id p w)) = rev_reg_recs w"
  by (simp add: fresh_id_def)

lemma issue_finish_result:
  "credential r = Some c \<Longrightarrow>
   \<exists>msg w' r'. issue_finish p r comment w = (Inr msg, w', r')
     \<and> credentials_attach msg = Some [c] \<and> i_comment msg = comment \<and> thid msg = thread_id r
     \<and> r' = fst (save p ''issue credential'' (r\<lparr>state := Some ISSUED\<rparr>) w)
     \<and> events w' = events w @ [Saved ''issue credential'' (credential_exchange_id r')]
     \<and> rev_reg_recs w' = rev_reg_recs w"
  by (simp add: issue_finish_def Let_def case_prod_beta save_fields save_events save_other
      fresh_id_events fresh_id_recs assign_trace_decorator_def)

text \<open>
  C3. On a record in state \<open>OFFER_RECEIVED\<close> that has an offer and already carries a
  request, \<^verbatim>\<open>create_request\<close> makes no call on the holder: it logs a warning, builds the
  request message from the stored request, moves the record to \<open>REQUEST_SENT\<close> and saves
  it. On a record in state \<open>REQUEST_RECEIVED\<close> that already carries a credential,
  \<^verbatim>\<open>issue_credential\<close> makes no call on the issuer: it logs a warning, moves the record to
  \<open>ISSUED\<close>, saves it and builds the issue message from the stored credential. A second
  call on the record as the first one left it fails at the state guard, so it makes no
  call either, and yields no message.
\<close>

theorem replay_skips_cryptography:
  "(state r = Some OFFER_RECEIVED \<and> credential_offer r \<noteq> None
      \<and> credential_request r = Some req \<and> req \<noteq> [] \<longrightarrow>
      (\<exists>msg w' r'. create_request p r holder_did w = (Inr msg, w', r')
         \<and> requests_attach msg = Some [req]
         \<and> credential_request r' = Some req
         \<and> state r' = Some REQUEST_SENT
         \<and> events w' = events w @
              [LogWarning, Saved ''create credential request'' (credential_exchange_id r')]
         \<and> create_request p r' holder_did w' =
              (Inl (WrongState (credential_exchange_id r') (Some REQUEST_SENT) OFFER_RECEIVED), w', r')))
   \<and> (state r = Some REQUEST_RECEIVED \<and> credential r = Some cred \<and> cred \<noteq> [] \<longrightarrow>
      (\<exists>msg w' r'. issue_credential env p r comment retries w = (Inr msg, w', r')
         \<and> credentials_attach msg = Some [cred]
         \<and> credential r' = Some cred
         \<and> state r' = Some ISSUED
         \<and> events w' = events w @
              [LogWarning, Saved ''issue credential'' (credential_exchange_id r')]
         \<and> issue_credential env p r' comment retries w' =
              (Inl (WrongState (credential_exchange_id r') (Some ISSUED) REQUEST_RECEIVED), w', r')))"
proof (intro conjI impI)
  assume a: "state r = Some OFFER_RECEIVED \<and> credential_offer r \<noteq> None
      \<and> credential_request r = Some req \<and> req \<noteq> []"
  then obtain off where off: "credential_offer r = Some off" by auto
  let ?s = "save p ''create credential request'' (r\<lparr>state := Some REQUEST_SENT\<rparr>)
              (snd (fresh_id p (emit LogWarning w)))"
  have 1: "create_request p r holder_did w =
             (Inr (assign_trace_decorator (trace r)
                \<lparr>msg_id = fst (fresh_id p (emit LogWarning w)), thid = thread_id r, trace_dec = False,
                 requests_attach = Some [req]\<rparr>), snd ?s, fst ?s)"
    using a off by (simp add: create_request_def truthy_def Let_def case_prod_beta)
  have 2: "state (fst ?s) = Some REQUEST_SENT" "credential_request (fst ?s) = Some req"
    using a by (simp_all add: save_fields)
  have 3: "events (snd ?s) = events w @
              [LogWarning, Saved ''create credential request'' (credential_exchange_id (fst ?s))]"
    by (simp add: save_events fresh_id_events emit_def)
  have 4: "create_request p (fst ?s) holder_did (snd ?s) =
             (Inl (WrongState (credential_exchange_id (fst ?s)) (Some REQUEST_SENT) OFFER_RECEIVED),
              snd ?s, fst ?s)"
    using 2 by (simp add: create_request_def)
  show "\<exists>msg w' r'. create_request p r holder_did w = (Inr msg, w', r')
         \<and> requests_attach msg = Some [req]
         \<and> credential_request r' = Some req
         \<and> state r' = Some REQUEST_SENT
         \<and> events w' = events w @
              [LogWarning, Saved ''create credential request'' (credential_exchange_id r')]
         \<and> create_request p r' holder_did w' =
              (Inl (WrongState (credential_exchange_id r') (Some REQUEST_SENT) OFFER_RECEIVED), w', r')"
    using 1 2 3 4 by (simp add: assign_trace_decorator_def)
next
  assume a: "state r = Some REQUEST_RECEIVED \<and> credential r = Some cred \<and> cred \<noteq> []"
  from a obtain msg w' r' where f: "issue_finish p r comment (emit LogWarning w) = (Inr msg, w', r')"
     and m: "credentials_attach msg = Some [cred]"
     and r': "r' = fst (save p ''issue credential'' (r\<lparr>state := Some ISSUED\<rparr>) (emit LogWarning w))"
     and e: "events w' = events (emit LogWarning w) @ [Saved ''issue credential'' (credential_exchange_id r')]"
    using issue_finish_result [of r cred p comment "emit LogWarning w"] by blast
  have 1: "issue_credential env p r comment retries w = (Inr msg, w', r')"
    using a f by (simp add: issue_credential.simps issue_attempt_def truthy_def)
  have 2: "state r' = Some ISSUED" "credential r' = Some cred"
    using a r' by (simp_all add: save_fields)
  have 4: "issue_credential env p r' comment retries w' =
              (Inl (WrongState (credential_exchange_id r') (Some ISSUED) REQUEST_RECEIVED), w', r')"
    using 2 by (simp add: issue_credential.simps issue_attempt_def)
  show "\<exists>msg w' r'. issue_credential env p r comment retries w = (Inr msg, w', r')
         \<and> credentials_attach msg = Some [cred]
         \<and> credential r' = Some cred
         \<and> state r' = Some ISSUED
         \<and> events w' = events w @
              [LogWarning, Saved ''issue credential'' (credential_exchange_id r')]
         \<and> issue_credential env p r' comment retries w' =
              (Inl (WrongState (credential_exchange_id r') (Some ISSUED) REQUEST_RECEIVED), w', r')"
    using 1 2 4 m e by (simp add: emit_def)
qed

theorem replay_skips_cryptography_witness:
  "\<exists>msg w' r'. create_request ex_profile ex_requested ''did:ex:h'' (ex_world [] []) = (Inr msg, w', r')
         \<and> requests_attach msg = Some [ex_request]
         \<and> state r' = Some REQUEST_SENT
         \<and> events w' = [LogWarning, Saved ''create credential request'' (credential_exchange_id r')]"
  using replay_skips_cryptography [of ex_requested ex_request ex_profile "''did:ex:h''" "ex_world [] []"]
  by (auto simp: ex_requested_def ex_record_def new_cred_ex_def ex_request_def ex_world_def)

text \<open>
  The first call on a record that carries a request succeeds; the second call on that
  record finds it in state \<open>REQUEST_SENT\<close> and raises.
\<close>

lemma ex_after_request_eval:
  "create_request ex_profile ex_requested ''did:ex:h'' (ex_world [] []) =
     (Inr \<lparr>msg_id = ''u'', thid = Some ''t1'', trace_dec = False, requests_attach = Some [ex_request]\<rparr>,
      (ex_world [ex_requested\<lparr>state := Some REQUEST_SENT\<rparr>] [])
        \<lparr>events := [LogWarning, Saved ''create credential request'' (Some ''x1'')], uuid_count := 1\<rparr>,
      ex_requested\<lparr>state := Some REQUEST_SENT\<rparr>)"
  by (simp add: create_request_def ex_requested_def ex_record_def new_cred_ex_def truthy_def
      ex_request_def ex_offer_def Let_def fresh_id_def ex_profile_def ex_world_def emit_def
      assign_trace_decorator_def save_def)

theorem second_create_request_counterexample:
  "isl (fst (create_request ex_profile ex_requested ''did:ex:h'' (ex_world [] []))) = False
   \<and> fst (create_request ex_profile (snd ex_after_request) ''did:ex:h'' (fst ex_after_request)) =
       Inl (WrongState (Some ''x1'') (Some REQUEST_SENT) OFFER_RECEIVED)"
proof -
  have a: "isl (fst (create_request ex_profile ex_requested ''did:ex:h'' (ex_world [] []))) = False"
    by (simp add: ex_after_request_eval)
  have b: "snd ex_after_request = ex_requested\<lparr>state := Some REQUEST_SENT\<rparr>"
    by (simp add: ex_after_request_def ex_after_request_eval)
  have c: "fst (create_request ex_profile (ex_requested\<lparr>state := Some REQUEST_SENT\<rparr>) ''did:ex:h''
                 (fst ex_after_request)) =
           Inl (WrongState (Some ''x1'') (Some REQUEST_SENT) OFFER_RECEIVED)"
    by (simp add: create_request_def ex_requested_def ex_record_def new_cred_ex_def)
  show ?thesis using a c by (simp add: b)
qed

section \<open>Waiting for an active revocation registry\<close>

lemma set_insort_rr: "set (insort_rr x ys) = insert x (set ys)"
  by (induction ys) auto

lemma sorted_insort_rr:
  "sorted_wrt (\<lambda>a b. rr_created_at b \<le> rr_created_at a) ys \<Longrightarrow>
   sorted_wrt (\<lambda>a b. rr_created_at b \<le> rr_created_at a) (insort_rr x ys)"
  by (induction ys) (auto simp: set_insort_rr rr_lt_def)

lemma set_sorted_records: "set (sorted_records recs) = set recs"
  by (induction recs) (simp_all add: sorted_records_def set_insort_rr)

lemma sorted_sorted_records:
  "sorted_wrt (\<lambda>a b. rr_created_at b \<le> rr_created_at a) (sorted_records recs)"
  by (induction recs) (simp_all add: sorted_records_def sorted_insort_rr)

lemma sorted_records_head:
  assumes "sorted_records recs = a # rest"
  shows "a \<in> set recs \<and> (\<forall>b \<in> set recs. rr_created_at b \<le> rr_created_at a)"
proof -
  have s: "set recs = insert a (set rest)"
    using set_sorted_records [of recs] assms by simp
  have "sorted_wrt (\<lambda>a b. rr_created_at b \<le> rr_created_at a) (a # rest)"
    using sorted_sorted_records [of recs] assms by simp
  then have "\<forall>b \<in> set rest. rr_created_at b \<le> rr_created_at a"
    by simp
  with s show ?thesis by simp
qed

lemma sorted_records_empty: "sorted_records recs = [] \<longleftrightarrow> recs = []"
  using set_sorted_records [of recs] by (metis set_empty)

lemma request_registries_events:
  "request_registries cd w =
     (if query_by_cred_def_id (rev_reg_recs w) cd (Some RR_POSTED) = [] then
        w\<lparr>events := events w @
             [Notify cd (case sorted_records (query_by_cred_def_id (rev_reg_recs w) cd None) of
                           [] \<Rightarrow> None | a # _ \<Rightarrow> Some (rr_max_cred_num a)) True,
              Notify cd (case sorted_records (query_by_cred_def_id (rev_reg_recs w) cd None) of
                           [] \<Rightarrow> None | a # _ \<Rightarrow> Some (rr_max_cred_num a)) True]\<rparr>
      else w)"
  by (cases "sorted_records (query_by_cred_def_id (rev_reg_recs w) cd None)")
     (simp_all add: request_registries_def notify_revocation_reg_event_def emit_def Let_def)

lemma issue_attempt_no_active:
  assumes "state r = Some REQUEST_RECEIVED" and "\<not> truthy (credential r)"
    and "credential_offer r \<noteq> None" and "credential_request r \<noteq> None"
    and "cd_revocation (get_credential_definition p (credential_definition_id r))"
    and "query_by_cred_def_id (rev_reg_recs w) (credential_definition_id r) (Some RR_ACTIVE) = []"
  shows "issue_attempt p r comment w =
           NoActiveRegistry (request_registries (credential_definition_id r) w) r"
  using assms
  by (auto simp: issue_attempt_def get_active_issuer_rev_reg_record_def Let_def)

text \<open>
  C4. \<^verbatim>\<open>issue_credential\<close> on a record in state \<open>REQUEST_RECEIVED\<close> without a credential,
  for a cred def that supports revocation and has no active registry record: when the cred
  def has no posted registry record either, exactly two notifications that a registry is
  needed are emitted, with \<open>auto_create_rev_reg\<close> true. They carry the capacity of the most
  recently created of the cred def's registry records, that is of one created no earlier
  than any other, or no size when the cred def has no record. Then, when \<open>retries\<close> is
  positive, the flow sleeps 2 seconds and runs again with one retry less; otherwise it
  fails for want of an active registry, and the record is still in state
  \<open>REQUEST_RECEIVED\<close>.
\<close>

theorem no_active_registry_waits:
  assumes "state r = Some REQUEST_RECEIVED" and "\<not> truthy (credential r)"
    and "credential_offer r \<noteq> None" and "credential_request r \<noteq> None"
    and "cd_revocation (get_credential_definition p (credential_definition_id r))"
    and "query_by_cred_def_id (rev_reg_recs w) (credential_definition_id r) (Some RR_ACTIVE) = []"
  shows "let cd = credential_definition_id r;
             old = query_by_cred_def_id (rev_reg_recs w) cd None;
             rev_reg_size =
               (case sorted_records old of [] \<Rightarrow> None | a # _ \<Rightarrow> Some (rr_max_cred_num a));
             w1 = (if query_by_cred_def_id (rev_reg_recs w) cd (Some RR_POSTED) = []
                   then w\<lparr>events := events w @
                            [Notify cd rev_reg_size True, Notify cd rev_reg_size True]\<rparr>
                   else w)
         in ((old = [] \<and> rev_reg_size = None)
             \<or> (\<exists>a \<in> set old. (\<forall>b \<in> set old. rr_created_at b \<le> rr_created_at a)
                    \<and> rev_reg_size = Some (rr_max_cred_num a)))
          \<and> (0 < retries \<longrightarrow>
               issue_credential env p r comment retries w =
                 issue_credential env p r comment (retries - 1)
                   (env (w1\<lparr>events := events w1 @ [Sleep 2]\<rparr>)))
          \<and> (\<not> 0 < retries \<longrightarrow>
               issue_credential env p r comment retries w =
                 (Inl (NoActiveRevocationRegistry cd), w1, r)
               \<and> state r = Some REQUEST_RECEIVED)"
proof -
  let ?old = "query_by_cred_def_id (rev_reg_recs w) (credential_definition_id r) None"
  have size: "(?old = [] \<and> (case sorted_records ?old of [] \<Rightarrow> None
                               | a # _ \<Rightarrow> Some (rr_max_cred_num a)) = None)
            \<or> (\<exists>a \<in> set ?old. (\<forall>b \<in> set ?old. rr_created_at b \<le> rr_created_at a)
                  \<and> (case sorted_records ?old of [] \<Rightarrow> None
                      | a # _ \<Rightarrow> Some (rr_max_cred_num a)) = Some (rr_max_cred_num a))"
  proof (cases "sorted_records ?old")
    case Nil
    then have "?old = []" by (simp add: sorted_records_empty)
    with Nil show ?thesis by simp
  next
    case (Cons a rest)
    from sorted_records_head [OF this] Cons show ?thesis by auto
  qed
  have run: "(0 < retries \<longrightarrow>
               issue_credential env p r comment retries w =
                 issue_credential env p r comment (retries - 1)
                   (sleep env 2 (request_registries (credential_definition_id r) w)))
          \<and> (\<not> 0 < retries \<longrightarrow>
               issue_credential env p r comment retries w =
                 (Inl (NoActiveRevocationRegistry (credential_definition_id r)),
                  request_registries (credential_definition_id r) w, r))"
    using issue_attempt_no_active [OF assms, of comment]
    by (simp add: issue_credential.simps [of env p r comment retries w])
  show ?thesis
    using size run assms(1)
    by (simp add: request_registries_events sleep_def emit_def Let_def)
qed

theorem no_active_registry_waits_witness:
  "issue_credential id ex_profile
       ((ex_record (Some REQUEST_RECEIVED))\<lparr>credential_request := Some ex_request\<rparr>) None 1
       (ex_world [] [ex_rev_reg ''R9'' RR_FULL 5 2, ex_rev_reg ''R0'' RR_FULL 7 3]) =
     (Inl (NoActiveRevocationRegistry (Some ''CD1'')),
      (ex_world [] [ex_rev_reg ''R9'' RR_FULL 5 2, ex_rev_reg ''R0'' RR_FULL 7 3])
         \<lparr>events := [Notify (Some ''CD1'') (Some 7) True, Notify (Some ''CD1'') (Some 7) True, Sleep 2,
                     Notify (Some ''CD1'') (Some 7) True, Notify (Some ''CD1'') (Some 7) True]\<rparr>,
      (ex_record (Some REQUEST_RECEIVED))\<lparr>credential_request := Some ex_request\<rparr>)"
proof -
  let ?r = "(ex_record (Some REQUEST_RECEIVED))\<lparr>credential_request := Some ex_request\<rparr>"
  let ?w = "ex_world [] [ex_rev_reg ''R9'' RR_FULL 5 2, ex_rev_reg ''R0'' RR_FULL 7 3]"
  let ?w2 = "?w\<lparr>events := [Notify (Some ''CD1'') (Some 7) True, Notify (Some ''CD1'') (Some 7) True, Sleep 2]\<rparr>"
  have r: "state ?r = Some REQUEST_RECEIVED" "\<not> truthy (credential ?r)"
    "credential_offer ?r \<noteq> None" "credential_request ?r \<noteq> None"
    "cd_revocation (get_credential_definition ex_profile (credential_definition_id ?r))"
    by (simp_all add: ex_record_def new_cred_ex_def truthy_def ex_profile_def)
  have cd: "credential_definition_id ?r = Some ''CD1''"
    by (simp add: ex_record_def new_cred_ex_def)
  have q: "query_by_cred_def_id (rev_reg_recs ?w) (Some ''CD1'') (Some RR_ACTIVE) = []"
    "query_by_cred_def_id (rev_reg_recs ?w) (Some ''CD1'') (Some RR_POSTED) = []"
    "sorted_records (query_by_cred_def_id (rev_reg_recs ?w) (Some ''CD1'') None)
       = [ex_rev_reg ''R0'' RR_FULL 7 3, ex_rev_reg ''R9'' RR_FULL 5 2]"
    by (simp_all add: query_by_cred_def_id_def ex_world_def ex_rev_reg_def sorted_records_def
        rr_lt_def)
  have ev: "events ?w = []" "rr_max_cred_num (ex_rev_reg ''R0'' RR_FULL 7 3) = 7"
    by (simp_all add: ex_world_def ex_rev_reg_def)
  have q1: "query_by_cred_def_id (rev_reg_recs ?w) (credential_definition_id ?r) (Some RR_ACTIVE) = []"
    "query_by_cred_def_id (rev_reg_recs ?w2) (credential_definition_id ?r) (Some RR_ACTIVE) = []"
    using q by (simp_all add: cd)
  have 1: "issue_credential id ex_profile ?r None 1 ?w = issue_credential id ex_profile ?r None 0 ?w2"
    using no_active_registry_waits [OF r q1(1), where retries = 1 and env = id and comment = None]
    by (simp add: cd q ev Let_def)
  have 2: "issue_credential id ex_profile ?r None 0 ?w2 =
             (Inl (NoActiveRevocationRegistry (Some ''CD1'')),
              ?w2\<lparr>events := events ?w2 @ [Notify (Some ''CD1'') (Some 7) True, Notify (Some ''CD1'') (Some 7) True]\<rparr>, ?r)"
    using no_active_registry_waits [OF r q1(2), where retries = 0 and env = id and comment = None]
    by (simp add: cd q ev Let_def)
  show ?thesis
    unfolding 1 2 by simp
qed

section \<open>Issuing the last credential of a registry\<close>

lemma active_record_stored:
  "get_active_issuer_rev_reg_record recs cd = Inr a \<Longrightarrow> a \<in> set recs"
proof -
  assume "get_active_issuer_rev_reg_record recs cd = Inr a"
  then have "a \<in> set (query_by_cred_def_id recs cd (Some RR_ACTIVE))"
    by (auto simp: get_active_issuer_rev_reg_record_def split: list.splits)
  then show ?thesis by (simp add: query_by_cred_def_id_def)
qed

lemma issue_attempt_active:
  assumes "state r = Some REQUEST_RECEIVED" and "\<not> truthy (credential r)"
    and "credential_offer r = Some off" and "credential_request r = Some rq"
    and "credential_proposal_dict r = Some pr" and "p_credential_proposal pr = Some pv"
    and "cd_revocation (get_credential_definition p (credential_definition_id r))"
    and "get_active_issuer_rev_reg_record (rev_reg_recs w) (credential_definition_id r) = Inr a"
    and "create_credential p (emit (FetchTails (rr_revoc_reg_id a)) w) (get_schema p (schema_id r))
           off rq (map (\<lambda>x. (attr_name x, attr_value x)) pv) (credential_exchange_id r)
           (Some (rr_revoc_reg_id a)) (rr_tails_local_path a) = Inr (cj, rev_id)"
  shows "issue_attempt p r comment w =
           Finished (after_create p (r\<lparr>revoc_reg_id := Some (rr_revoc_reg_id a)\<rparr>) comment (Some a)
             cj rev_id
             (emit (IssuerCreateCredential (credential_exchange_id r) (Some (rr_revoc_reg_id a)))
                (emit (FetchTails (rr_revoc_reg_id a)) w)))"
  using assms
  by (simp add: issue_attempt_def call_issuer_def Let_def get_registry_def)
lemma issue_pass_creates:
  assumes "state r = Some REQUEST_RECEIVED" and "\<not> truthy (credential r)"
    and "credential_offer r = Some off" and "credential_request r = Some rq"
    and "credential_proposal_dict r = Some pr" and "p_credential_proposal pr = Some pv"
    and "cd_revocation (get_credential_definition p (credential_definition_id r))"
    and "get_active_issuer_rev_reg_record (rev_reg_recs w) (credential_definition_id r) = Inr a"
    and "create_credential p (emit (FetchTails (rr_revoc_reg_id a)) w) (get_schema p (schema_id r))
           off rq (map (\<lambda>x. (attr_name x, attr_value x)) pv) (credential_exchange_id r)
           (Some (rr_revoc_reg_id a)) (rr_tails_local_path a) = Inr (cj, Some s)"
    and "py_int s = Some n"
  shows "\<exists>msg w' r'.
           issue_attempt p r comment w = Finished (Inr msg, w', r')
         \<and> state r' = Some ISSUED \<and> revocation_id r' = Some s
         \<and> revoc_reg_id r' = Some (rr_revoc_reg_id a)
         \<and> (n = max_creds (get_registry a) \<longrightarrow>
               a\<lparr>rr_state := RR_FULL\<rparr> \<in> set (rev_reg_recs w')
             \<and> rev_reg_recs w' =
                 map (\<lambda>x. if rr_revoc_reg_id x = rr_revoc_reg_id a then x\<lparr>rr_state := RR_FULL\<rparr> else x)
                   (rev_reg_recs w)
             \<and> max_creds (get_registry a) = rr_max_cred_num a
             \<and> events w' = events w @
                 [FetchTails (rr_revoc_reg_id a),
                  IssuerCreateCredential (credential_exchange_id r) (Some (rr_revoc_reg_id a)),
                  RevRegSetState (rr_revoc_reg_id a) RR_FULL,
                  Notify (credential_definition_id r) (Some (rr_max_cred_num a)) True,
                  Saved ''issue credential'' (credential_exchange_id r')])
         \<and> (n \<noteq> max_creds (get_registry a) \<longrightarrow>
               rev_reg_recs w' = rev_reg_recs w
             \<and> events w' = events w @
                 [FetchTails (rr_revoc_reg_id a),
                  IssuerCreateCredential (credential_exchange_id r) (Some (rr_revoc_reg_id a)),
                  Saved ''issue credential'' (credential_exchange_id r')])"
proof -
  let ?w1 = "emit (IssuerCreateCredential (credential_exchange_id r) (Some (rr_revoc_reg_id a)))
                (emit (FetchTails (rr_revoc_reg_id a)) w)"
  let ?r1 = "r\<lparr>revoc_reg_id := Some (rr_revoc_reg_id a), revocation_id := Some s,
               credential := Some cj\<rparr>"
  have run: "issue_attempt p r comment w =
               Finished (after_create p (r\<lparr>revoc_reg_id := Some (rr_revoc_reg_id a)\<rparr>) comment
                 (Some a) cj (Some s) ?w1)"
    by (rule issue_attempt_active [OF assms(1-9)])
  have mem: "a \<in> set (rev_reg_recs w)"
    using assms(8) by (rule active_record_stored)
  show ?thesis
  proof (cases "n = max_creds (get_registry a)")
    case True
    let ?w2 = "notify_revocation_reg_event (credential_definition_id r) (Some (rr_max_cred_num a)) True
                 (set_state (rr_revoc_reg_id a) RR_FULL ?w1)"
    have ac: "issue_attempt p r comment w = Finished (issue_finish p ?r1 comment ?w2)"
      using True assms(10) by (simp add: run after_create_def)
    obtain msg w' r' where f: "issue_finish p ?r1 comment ?w2 = (Inr msg, w', r')"
      and r': "r' = fst (save p ''issue credential'' (?r1\<lparr>state := Some ISSUED\<rparr>) ?w2)"
      and e: "events w' = events ?w2 @ [Saved ''issue credential'' (credential_exchange_id r')]"
      and g: "rev_reg_recs w' = rev_reg_recs ?w2"
      using issue_finish_result [of ?r1 cj p comment ?w2] by auto
    have recs: "rev_reg_recs ?w2 =
        map (\<lambda>x. if rr_revoc_reg_id x = rr_revoc_reg_id a then x\<lparr>rr_state := RR_FULL\<rparr> else x)
          (rev_reg_recs w)"
      by (simp add: notify_revocation_reg_event_def set_state_def emit_def)
    have full: "a\<lparr>rr_state := RR_FULL\<rparr> \<in> set (rev_reg_recs ?w2)"
      unfolding recs using mem by force
    have ev: "events ?w2 = events w @
                 [FetchTails (rr_revoc_reg_id a),
                  IssuerCreateCredential (credential_exchange_id r) (Some (rr_revoc_reg_id a)),
                  RevRegSetState (rr_revoc_reg_id a) RR_FULL,
                  Notify (credential_definition_id r) (Some (rr_max_cred_num a)) True]"
      by (simp add: notify_revocation_reg_event_def set_state_def emit_def)
    show ?thesis
      using True f e g full by (simp add: ac r' save_fields recs ev get_registry_def)
  next
    case False
    have ac: "issue_attempt p r comment w = Finished (issue_finish p ?r1 comment ?w1)"
      using False assms(10) by (simp add: run after_create_def)
    obtain msg w' r' where f: "issue_finish p ?r1 comment ?w1 = (Inr msg, w', r')"
      and r': "r' = fst (save p ''issue credential'' (?r1\<lparr>state := Some ISSUED\<rparr>) ?w1)"
      and e: "events w' = events ?w1 @ [Saved ''issue credential'' (credential_exchange_id r')]"
      and g: "rev_reg_recs w' = rev_reg_recs ?w1"
      using issue_finish_result [of ?r1 cj p comment ?w1] by auto
    show ?thesis
      using False f e g by (simp add: ac r' save_fields emit_def)
  qed
qed

lemma issue_attempt_success:
  assumes "issue_attempt p r comment w = Finished (Inr msg, w', r')"
    and "\<not> truthy (credential r)"
    and "cd_revocation (get_credential_definition p (credential_definition_id r))"
  shows "\<exists>off rq pr pv a cj s n.
           state r = Some REQUEST_RECEIVED
         \<and> credential_offer r = Some off \<and> credential_request r = Some rq
         \<and> credential_proposal_dict r = Some pr \<and> p_credential_proposal pr = Some pv
         \<and> get_active_issuer_rev_reg_record (rev_reg_recs w) (credential_definition_id r) = Inr a
         \<and> create_credential p (emit (FetchTails (rr_revoc_reg_id a)) w) (get_schema p (schema_id r))
              off rq (map (\<lambda>x. (attr_name x, attr_value x)) pv) (credential_exchange_id r)
              (Some (rr_revoc_reg_id a)) (rr_tails_local_path a) = Inr (cj, Some s)
         \<and> py_int s = Some n"
proof -
  have st: "state r = Some REQUEST_RECEIVED"
    using assms(1) by (cases "state r = Some REQUEST_RECEIVED") (simp_all add: issue_attempt_def)
  obtain off where off: "credential_offer r = Some off"
    using assms(1,2) st by (cases "credential_offer r") (simp_all add: issue_attempt_def)
  obtain rq where rq: "credential_request r = Some rq"
    using assms(1,2) st off by (cases "credential_request r") (simp_all add: issue_attempt_def)
  let ?act = "get_active_issuer_rev_reg_record (rev_reg_recs w) (credential_definition_id r)"
  obtain a where a: "?act = Inr a"
    using assms st off rq
    by (cases ?act) (simp_all add: issue_attempt_def Let_def split: if_splits)
  let ?r1 = "r\<lparr>revoc_reg_id := Some (rr_revoc_reg_id a)\<rparr>"
  let ?w1 = "emit (FetchTails (rr_revoc_reg_id a)) w"
  have call: "call_issuer p ?r1 comment (get_schema p (schema_id r)) off rq (Some a)
                (rr_tails_local_path a) ?w1 = Finished (Inr msg, w', r')"
    using assms st off rq a by (simp add: issue_attempt_def Let_def get_registry_def)
  obtain pr where pr: "credential_proposal_dict r = Some pr"
    using call by (cases "credential_proposal_dict r") (simp_all add: call_issuer_def)
  obtain pv where pv: "p_credential_proposal pr = Some pv"
    using call pr by (cases "p_credential_proposal pr") (simp_all add: call_issuer_def)
  let ?cc = "create_credential p ?w1 (get_schema p (schema_id r)) off rq
               (map (\<lambda>x. (attr_name x, attr_value x)) pv) (credential_exchange_id r)
               (Some (rr_revoc_reg_id a)) (rr_tails_local_path a)"
  obtain cj rev_id where cc: "?cc = Inr (cj, rev_id)"
    using call pr pv
    by (cases ?cc) (auto simp: call_issuer_def Let_def split: if_splits)
  let ?w2 = "emit (IssuerCreateCredential (credential_exchange_id r) (Some (rr_revoc_reg_id a))) ?w1"
  have ac: "after_create p ?r1 comment (Some a) cj rev_id ?w2 = (Inr msg, w', r')"
    using call pr pv cc by (simp add: call_issuer_def Let_def)
  obtain s where s: "rev_id = Some s"
    using ac by (cases rev_id) (simp_all add: after_create_def)
  obtain n where n: "py_int s = Some n"
    using ac s by (cases "py_int s") (simp_all add: after_create_def)
  show ?thesis
    using st off rq pr pv a cc s n by blast
qed

lemma issue_attempt_retry_record:
  "issue_attempt p r comment w = NoActiveRegistry w1 r1 \<Longrightarrow> r1 = r"
  "issue_attempt p r comment w = RegistryFull w1 r1 \<Longrightarrow> \<exists>x. r1 = r\<lparr>revoc_reg_id := x\<rparr>"
  by (auto simp: issue_attempt_def call_issuer_def Let_def
      split: if_splits option.splits sum.splits prod.splits)

text \<open>
  Every run of \<^verbatim>\<open>issue_credential\<close> that returns ends with a pass through the body that
  returns the same result. That pass starts from the world and the record of the call, or
  from the world as the other tasks left it after a sleep, and from a record that differs
  from the one of the call in \<open>revoc_reg_id\<close> at most.
\<close>

lemma run_ends_with_pass:
  assumes "issue_credential env p r comment retries w = (Inr msg, w', r')"
  shows "\<exists>rk wk. issue_attempt p rk comment wk = Finished (Inr msg, w', r')
           \<and> ((rk = r \<and> wk = w) \<or> (\<exists>w0 secs. wk = env (emit (Sleep secs) w0)))
           \<and> (\<forall>res. issue_attempt p r comment w = Finished res \<longrightarrow> rk = r \<and> wk = w)
           \<and> credential rk = credential r
           \<and> credential_definition_id rk = credential_definition_id r
           \<and> credential_exchange_id rk = credential_exchange_id r"
  using assms
proof (induction env p r comment retries w rule: issue_credential.induct)
  case (1 env p r comment retries w)
  show ?case
  proof (cases "issue_attempt p r comment w")
    case (Finished res)
    with "1.prems" have "res = (Inr msg, w', r')"
      by (simp add: issue_credential.simps [of env p r comment retries w])
    with Finished show ?thesis by auto
  next
    case (NoActiveRegistry w1 r1)
    have r1: "r1 = r"
      using NoActiveRegistry by (rule issue_attempt_retry_record)
    have pos: "0 < retries"
      using "1.prems" NoActiveRegistry
      by (cases "0 < retries") (simp_all add: issue_credential.simps [of env p r comment retries w])
    have rec: "issue_credential env p r1 comment (retries - 1) (sleep env 2 w1) = (Inr msg, w', r')"
      using "1.prems" NoActiveRegistry pos
      by (simp add: issue_credential.simps [of env p r comment retries w])
    from "1.IH"(1) [OF NoActiveRegistry pos rec]
    obtain rk wk where k: "issue_attempt p rk comment wk = Finished (Inr msg, w', r')"
      "(rk = r1 \<and> wk = sleep env 2 w1) \<or> (\<exists>w0 secs. wk = env (emit (Sleep secs) w0))"
      "credential rk = credential r1"
      "credential_definition_id rk = credential_definition_id r1"
      "credential_exchange_id rk = credential_exchange_id r1"
      by blast
    from k(2) have "\<exists>w0 secs. wk = env (emit (Sleep secs) w0)"
      by (auto simp: sleep_def)
    with k r1 NoActiveRegistry show ?thesis by auto
  next
    case (RegistryFull w1 r1)
    obtain x where r1: "r1 = r\<lparr>revoc_reg_id := x\<rparr>"
      using issue_attempt_retry_record(2) [OF RegistryFull] by blast
    have pos: "0 < retries"
      using "1.prems" RegistryFull
      by (cases "0 < retries") (simp_all add: issue_credential.simps [of env p r comment retries w])
    have rec: "issue_credential env p r1 comment (retries - 1) (sleep env 1 w1) = (Inr msg, w', r')"
      using "1.prems" RegistryFull pos
      by (simp add: issue_credential.simps [of env p r comment retries w])
    from "1.IH"(2) [OF RegistryFull pos rec]
    obtain rk wk where k: "issue_attempt p rk comment wk = Finished (Inr msg, w', r')"
      "(rk = r1 \<and> wk = sleep env 1 w1) \<or> (\<exists>w0 secs. wk = env (emit (Sleep secs) w0))"
      "credential rk = credential r1"
      "credential_definition_id rk = credential_definition_id r1"
      "credential_exchange_id rk = credential_exchange_id r1"
      by blast
    from k(2) have "\<exists>w0 secs. wk = env (emit (Sleep secs) w0)"
      by (auto simp: sleep_def)
    with k r1 RegistryFull show ?thesis by auto
  qed
qed

text \<open>
  C5. Every run of \<^verbatim>\<open>issue_credential\<close> that returns, on a record without a credential
  and for a cred def that supports revocation, whether it has waited for a registry or
  retried on a full one before or not, ends with a pass that finds an active registry
  record and obtains from the issuer a credential and a revocation id. When the
  revocation id equals the capacity of that registry, that pass sets the active record to
  \<open>FULL\<close> and emits exactly one notification that a registry is needed, with the capacity
  of that record, both after the call on the issuer and before the record is saved and
  the flow returns; the record is \<open>FULL\<close> in the world the flow returns. When the
  revocation id differs from the capacity (below it, in particular), the pass leaves the
  registry records as they were and emits no notification.
\<close>

theorem registry_marked_full_at_capacity:
  assumes "issue_credential env p r comment retries w = (Inr msg, w', r')"
    and "\<not> truthy (credential r)"
    and "cd_revocation (get_credential_definition p (credential_definition_id r))"
  shows "\<exists>rk wk a s n.
           issue_attempt p rk comment wk = Finished (Inr msg, w', r')
         \<and> ((rk = r \<and> wk = w) \<or> (\<exists>w0 secs. wk = env (emit (Sleep secs) w0)))
         \<and> (\<forall>res. issue_attempt p r comment w = Finished res \<longrightarrow> rk = r \<and> wk = w)
         \<and> get_active_issuer_rev_reg_record (rev_reg_recs wk) (credential_definition_id r) = Inr a
         \<and> state r' = Some ISSUED \<and> revocation_id r' = Some s \<and> py_int s = Some n
         \<and> revoc_reg_id r' = Some (rr_revoc_reg_id a)
         \<and> (n = max_creds (get_registry a) \<longrightarrow>
               a\<lparr>rr_state := RR_FULL\<rparr> \<in> set (rev_reg_recs w')
             \<and> rev_reg_recs w' =
                 map (\<lambda>x. if rr_revoc_reg_id x = rr_revoc_reg_id a then x\<lparr>rr_state := RR_FULL\<rparr> else x)
                   (rev_reg_recs wk)
             \<and> max_creds (get_registry a) = rr_max_cred_num a
             \<and> events w' = events wk @
                 [FetchTails (rr_revoc_reg_id a),
                  IssuerCreateCredential (credential_exchange_id r) (Some (rr_revoc_reg_id a)),
                  RevRegSetState (rr_revoc_reg_id a) RR_FULL,
                  Notify (credential_definition_id r) (Some (rr_max_cred_num a)) True,
                  Saved ''issue credential'' (credential_exchange_id r')])
         \<and> (n \<noteq> max_creds (get_registry a) \<longrightarrow>
               rev_reg_recs w' = rev_reg_recs wk
             \<and> events w' = events wk @
                 [FetchTails (rr_revoc_reg_id a),
                  IssuerCreateCredential (credential_exchange_id r) (Some (rr_revoc_reg_id a)),
                  Saved ''issue credential'' (credential_exchange_id r')])"
proof -
  from run_ends_with_pass [OF assms(1)]
  obtain rk wk where pass: "issue_attempt p rk comment wk = Finished (Inr msg, w', r')"
    and from_w: "(rk = r \<and> wk = w) \<or> (\<exists>w0 secs. wk = env (emit (Sleep secs) w0))"
    and first: "\<forall>res. issue_attempt p r comment w = Finished res \<longrightarrow> rk = r \<and> wk = w"
    and same: "credential rk = credential r"
      "credential_definition_id rk = credential_definition_id r"
      "credential_exchange_id rk = credential_exchange_id r"
    by blast
  have nc: "\<not> truthy (credential rk)"
    using assms(2) same(1) by simp
  have rv: "cd_revocation (get_credential_definition p (credential_definition_id rk))"
    using assms(3) same(2) by simp
  from issue_attempt_success [OF pass nc rv]
  obtain off rq pr pv a cj s n where h:
    "state rk = Some REQUEST_RECEIVED"
    "credential_offer rk = Some off" "credential_request rk = Some rq"
    "credential_proposal_dict rk = Some pr" "p_credential_proposal pr = Some pv"
    "get_active_issuer_rev_reg_record (rev_reg_recs wk) (credential_definition_id rk) = Inr a"
    "create_credential p (emit (FetchTails (rr_revoc_reg_id a)) wk) (get_schema p (schema_id rk))
       off rq (map (\<lambda>x. (attr_name x, attr_value x)) pv) (credential_exchange_id rk)
       (Some (rr_revoc_reg_id a)) (rr_tails_local_path a) = Inr (cj, Some s)"
    "py_int s = Some n"
    by blast
  from issue_pass_creates [OF h(1) nc h(2-5) rv h(6-8), of comment]
  obtain msg2 w2 r2 where e: "issue_attempt p rk comment wk = Finished (Inr msg2, w2, r2)"
    and c2: "state r2 = Some ISSUED \<and> revocation_id r2 = Some s
         \<and> revoc_reg_id r2 = Some (rr_revoc_reg_id a)
         \<and> (n = max_creds (get_registry a) \<longrightarrow>
               a\<lparr>rr_state := RR_FULL\<rparr> \<in> set (rev_reg_recs w2)
             \<and> rev_reg_recs w2 =
                 map (\<lambda>x. if rr_revoc_reg_id x = rr_revoc_reg_id a then x\<lparr>rr_state := RR_FULL\<rparr> else x)
                   (rev_reg_recs wk)
             \<and> max_creds (get_registry a) = rr_max_cred_num a
             \<and> events w2 = events wk @
                 [FetchTails (rr_revoc_reg_id a),
                  IssuerCreateCredential (credential_exchange_id rk) (Some (rr_revoc_reg_id a)),
                  RevRegSetState (rr_revoc_reg_id a) RR_FULL,
                  Notify (credential_definition_id rk) (Some (rr_max_cred_num a)) True,
                  Saved ''issue credential'' (credential_exchange_id r2)])
         \<and> (n \<noteq> max_creds (get_registry a) \<longrightarrow>
               rev_reg_recs w2 = rev_reg_recs wk
             \<and> events w2 = events wk @
                 [FetchTails (rr_revoc_reg_id a),
                  IssuerCreateCredential (credential_exchange_id rk) (Some (rr_revoc_reg_id a)),
                  Saved ''issue credential'' (credential_exchange_id r2)])"
    by blast
  have eq: "w2 = w'" "r2 = r'"
    using e pass by simp_all
  have c: "state r' = Some ISSUED \<and> revocation_id r' = Some s
         \<and> revoc_reg_id r' = Some (rr_revoc_reg_id a)
         \<and> (n = max_creds (get_registry a) \<longrightarrow>
               a\<lparr>rr_state := RR_FULL\<rparr> \<in> set (rev_reg_recs w')
             \<and> rev_reg_recs w' =
                 map (\<lambda>x. if rr_revoc_reg_id x = rr_revoc_reg_id a then x\<lparr>rr_state := RR_FULL\<rparr> else x)
                   (rev_reg_recs wk)
             \<and> max_creds (get_registry a) = rr_max_cred_num a
             \<and> events w' = events wk @
                 [FetchTails (rr_revoc_reg_id a),
                  IssuerCreateCredential (credential_exchange_id rk) (Some (rr_revoc_reg_id a)),
                  RevRegSetState (rr_revoc_reg_id a) RR_FULL,
                  Notify (credential_definition_id rk) (Some (rr_max_cred_num a)) True,
                  Saved ''issue credential'' (credential_exchange_id r')])
         \<and> (n \<noteq> max_creds (get_registry a) \<longrightarrow>
               rev_reg_recs w' = rev_reg_recs wk
             \<and> events w' = events wk @
                 [FetchTails (rr_revoc_reg_id a),
                  IssuerCreateCredential (credential_exchange_id rk) (Some (rr_revoc_reg_id a)),
                  Saved ''issue credential'' (credential_exchange_id r')])"
    using c2 unfolding eq .
  from pass from_w first h(6) h(8) c show ?thesis
    unfolding same by blast
qed

lemma py_int_10: "py_int ''10'' = Some 10"
  by (simp add: py_int_def digit_val_def)

text \<open>
  The example run: no registry exists at the call, so the flow asks for two and sleeps;
  meanwhile R1 becomes active, and the second pass is issued its last slot.
\<close>

lemma ex_waiting_run:
  "\<exists>msg w' r'.
     issue_credential ex_env ex_profile
       ((ex_record (Some REQUEST_RECEIVED))\<lparr>credential_request := Some ex_request\<rparr>) None 5
       (ex_world [] []) = (Inr msg, w', r')
   \<and> revocation_id r' = Some ''10''"
proof -
  let ?r = "(ex_record (Some REQUEST_RECEIVED))\<lparr>credential_request := Some ex_request\<rparr>"
  let ?w = "ex_world [] []"
  let ?a = "ex_rev_reg ''R1'' RR_ACTIVE 10 2"
  let ?w2 = "ex_env (emit (Sleep 2) (request_registries (credential_definition_id ?r) ?w))"
  have r: "state ?r = Some REQUEST_RECEIVED" "\<not> truthy (credential ?r)"
    "credential_offer ?r = Some (ex_offer ''CD1'')" "credential_request ?r = Some ex_request"
    "credential_proposal_dict ?r = Some (ex_proposal ex_preview None)"
    "p_credential_proposal (ex_proposal ex_preview None) = Some ex_preview"
    "cd_revocation (get_credential_definition ex_profile (credential_definition_id ?r))"
    by (simp_all add: ex_record_def new_cred_ex_def truthy_def ex_profile_def ex_proposal_def)
  have ne: "credential_offer ?r \<noteq> None" "credential_request ?r \<noteq> None"
    using r(3,4) by simp_all
  have q: "query_by_cred_def_id (rev_reg_recs ?w) (credential_definition_id ?r) (Some RR_ACTIVE) = []"
    by (simp add: query_by_cred_def_id_def ex_world_def)
  have 1: "issue_credential ex_env ex_profile ?r None 5 ?w =
             issue_credential ex_env ex_profile ?r None 4 ?w2"
    using issue_attempt_no_active [OF r(1,2) ne r(7) q, of None]
    by (simp add: issue_credential.simps [of ex_env ex_profile ?r None 5 ?w] sleep_def)
  have a: "get_active_issuer_rev_reg_record (rev_reg_recs ?w2) (credential_definition_id ?r) = Inr ?a"
    by (simp add: get_active_issuer_rev_reg_record_def query_by_cred_def_id_def ex_env_def
        ex_rev_reg_def ex_record_def new_cred_ex_def)
  have c: "create_credential ex_profile (emit (FetchTails (rr_revoc_reg_id ?a)) ?w2)
             (get_schema ex_profile (schema_id ?r)) (ex_offer ''CD1'') ex_request
             (map (\<lambda>x. (attr_name x, attr_value x)) ex_preview) (credential_exchange_id ?r)
             (Some (rr_revoc_reg_id ?a)) (rr_tails_local_path ?a) = Inr (ex_credential, Some ''10'')"
    by (simp add: ex_profile_def)
  from issue_pass_creates [OF r a c py_int_10, of None]
  obtain msg w' r' where p: "issue_attempt ex_profile ?r None ?w2 = Finished (Inr msg, w', r')"
    and v: "revocation_id r' = Some ''10''"
    by blast
  have 2: "issue_credential ex_env ex_profile ?r None 4 ?w2 = (Inr msg, w', r')"
    by (subst issue_credential.simps) (simp only: p issue_outcome.case)
  show ?thesis
    using 1 2 v by simp
qed

theorem registry_marked_full_at_capacity_witness:
  "\<exists>msg w' r' (wk :: world).
     issue_credential ex_env ex_profile
       ((ex_record (Some REQUEST_RECEIVED))\<lparr>credential_request := Some ex_request\<rparr>) None 5
       (ex_world [] []) = (Inr msg, w', r')
   \<and> rev_reg_recs wk = [ex_rev_reg ''R1'' RR_ACTIVE 10 2]
   \<and> rev_reg_recs w' = [ex_rev_reg ''R1'' RR_FULL 10 2]
   \<and> events w' = events wk @
        [FetchTails ''R1'', IssuerCreateCredential (Some ''x1'') (Some ''R1''),
         RevRegSetState ''R1'' RR_FULL, Notify (Some ''CD1'') (Some 10) True,
         Saved ''issue credential'' (credential_exchange_id r')]"
proof -
  let ?r = "(ex_record (Some REQUEST_RECEIVED))\<lparr>credential_request := Some ex_request\<rparr>"
  let ?w = "ex_world [] []"
  let ?a = "ex_rev_reg ''R1'' RR_ACTIVE 10 2"
  from ex_waiting_run obtain msg w' r' where
    run: "issue_credential ex_env ex_profile ?r None 5 ?w = (Inr msg, w', r')"
    and v: "revocation_id r' = Some ''10''"
    by blast
  have nc: "\<not> truthy (credential ?r)"
    by (simp add: ex_record_def new_cred_ex_def truthy_def)
  have rv: "cd_revocation (get_credential_definition ex_profile (credential_definition_id ?r))"
    by (simp add: ex_profile_def)
  have f: "credential_definition_id ?r = Some ''CD1''" "credential_exchange_id ?r = Some ''x1''"
    by (simp_all add: ex_record_def new_cred_ex_def)
  from registry_marked_full_at_capacity [OF run nc rv]
  obtain rk wk a s n where
    from_w: "(rk = ?r \<and> wk = ?w) \<or> (\<exists>w0 secs. wk = ex_env (emit (Sleep secs) w0))"
    and act: "get_active_issuer_rev_reg_record (rev_reg_recs wk) (credential_definition_id ?r) = Inr a"
    and s: "revocation_id r' = Some s" "py_int s = Some n"
    and full: "n = max_creds (get_registry a) \<longrightarrow>
               a\<lparr>rr_state := RR_FULL\<rparr> \<in> set (rev_reg_recs w')
             \<and> rev_reg_recs w' =
                 map (\<lambda>x. if rr_revoc_reg_id x = rr_revoc_reg_id a then x\<lparr>rr_state := RR_FULL\<rparr> else x)
                   (rev_reg_recs wk)
             \<and> max_creds (get_registry a) = rr_max_cred_num a
             \<and> events w' = events wk @
                 [FetchTails (rr_revoc_reg_id a),
                  IssuerCreateCredential (credential_exchange_id ?r) (Some (rr_revoc_reg_id a)),
                  RevRegSetState (rr_revoc_reg_id a) RR_FULL,
                  Notify (credential_definition_id ?r) (Some (rr_max_cred_num a)) True,
                  Saved ''issue credential'' (credential_exchange_id r')]"
    by blast
  have no: "get_active_issuer_rev_reg_record (rev_reg_recs ?w) (credential_definition_id ?r)
              = Inl StorageNotFoundError"
    by (simp add: get_active_issuer_rev_reg_record_def query_by_cred_def_id_def ex_world_def)
  have wk: "rev_reg_recs wk = [?a]"
  proof (cases "wk = ?w")
    case True
    with act no show ?thesis by simp
  next
    case False
    with from_w obtain w0 secs where "wk = ex_env (emit (Sleep secs) w0)" by blast
    then show ?thesis by (simp add: ex_env_def)
  qed
  have a: "a = ?a"
    using act unfolding wk
    by (simp add: get_active_issuer_rev_reg_record_def query_by_cred_def_id_def f ex_rev_reg_def)
  have n: "n = 10"
    using s v py_int_10 by simp
  have cap: "max_creds (get_registry ?a) = 10" "rr_revoc_reg_id ?a = ''R1''" "rr_max_cred_num ?a = 10"
    "?a\<lparr>rr_state := RR_FULL\<rparr> = ex_rev_reg ''R1'' RR_FULL 10 2"
    by (simp_all add: get_registry_def ex_rev_reg_def)
  have res: "rev_reg_recs w' = [ex_rev_reg ''R1'' RR_FULL 10 2]"
    "events w' = events wk @
        [FetchTails ''R1'', IssuerCreateCredential (Some ''x1'') (Some ''R1''),
         RevRegSetState ''R1'' RR_FULL, Notify (Some ''CD1'') (Some 10) True,
         Saved ''issue credential'' (credential_exchange_id r')]"
    using full unfolding a n wk by (simp_all add: cap f)
  show ?thesis
    apply (intro exI conjI)
       apply (rule run)
      apply (rule wk)
     apply (rule res(1))
    apply (rule res(2))
    done
qed

section \<open>Selecting the credential definition\<close>

lemma max_from_mem: "max_from best k xs = Inr m \<Longrightarrow> m = best \<or> m \<in> set xs"
  by (induction xs arbitrary: best k) (auto split: sum.splits if_splits)

lemma max_from_greatest:
  "max_from best k xs = Inr m \<Longrightarrow> epoch_of best = Inr k \<Longrightarrow>
   \<exists>km. epoch_of m = Inr km \<and> k \<le> km \<and> (\<forall>x \<in> set xs. \<exists>kx. epoch_of x = Inr kx \<and> kx \<le> km)"
proof (induction xs arbitrary: best k)
  case Nil
  then show ?case by simp
next
  case (Cons x xs)
  from Cons.prems(1) obtain kx where kx: "epoch_of x = Inr kx"
    by (auto split: sum.splits)
  show ?case
  proof (cases "k < kx")
    case True
    with Cons.prems(1) kx have "max_from x kx xs = Inr m" by simp
    from Cons.IH [OF this kx] True kx show ?thesis by fastforce
  next
    case False
    with Cons.prems(1) kx have "max_from best k xs = Inr m" by simp
    from Cons.IH [OF this Cons.prems(2)] False kx show ?thesis by fastforce
  qed
qed

lemma max_from_defined:
  "\<forall>x \<in> set xs. \<exists>kx. epoch_of x = Inr kx \<Longrightarrow> \<exists>m. max_from best k xs = Inr m"
  by (induction xs arbitrary: best k) auto

lemma max_by_epoch_greatest:
  assumes "found \<noteq> []" and "\<forall>t \<in> set found. \<exists>k. epoch_of t = Inr k"
  shows "\<exists>m k. max_by_epoch found = Inr m \<and> m \<in> set found \<and> epoch_of m = Inr k
           \<and> (\<forall>t \<in> set found. \<exists>k'. epoch_of t = Inr k' \<and> k' \<le> k)"
proof -
  from assms(1) obtain x xs where f: "found = x # xs" by (cases found) auto
  with assms(2) obtain kx where kx: "epoch_of x = Inr kx" by auto
  from assms(2) f have "\<forall>y \<in> set xs. \<exists>ky. epoch_of y = Inr ky" by simp
  then obtain m where m: "max_from x kx xs = Inr m"
    using max_from_defined [of xs x kx] by blast
  have 1: "max_by_epoch found = Inr m"
    using f kx m by (simp add: max_by_epoch_def)
  have 2: "m \<in> set found"
    using max_from_mem [OF m] f by auto
  obtain km where km: "epoch_of m = Inr km" "kx \<le> km"
      "\<forall>y \<in> set xs. \<exists>ky. epoch_of y = Inr ky \<and> ky \<le> km"
    using max_from_greatest [OF m kx] by blast
  have 3: "\<forall>t \<in> set found. \<exists>k'. epoch_of t = Inr k' \<and> k' \<le> km"
    using f kx km(2,3) by simp
  show ?thesis using 1 2 km(1) 3 by blast
qed

lemma max_by_epoch_mem: "max_by_epoch found = Inr m \<Longrightarrow> m \<in> set found"
  by (auto simp: max_by_epoch_def split: list.splits sum.splits dest: max_from_mem)

lemma tag_query_cred_def_id:
  "truthy (p_cred_def_id pm) \<Longrightarrow> (''cred_def_id'', the (p_cred_def_id pm)) \<in> set (tag_query_of pm)"
  by (simp add: tag_query_of_def CRED_DEF_TAGS_def)

lemma found_matches:
  "t \<in> set (find_all_records recs tq) \<Longrightarrow> (k, v) \<in> set tq \<Longrightarrow> map_of t k = Some v"
  by (auto simp: find_all_records_def list_all_iff)

lemma match_explicit:
  assumes "match_sent_cred_def_id (tag_query_of pm) w = Inr cd" and "truthy (p_cred_def_id pm)"
  shows "cd = the (p_cred_def_id pm)"
proof -
  from assms(1) obtain m where m: "max_by_epoch (find_all_records (sent_cred_defs w) (tag_query_of pm)) = Inr m"
    and cd: "map_of m ''cred_def_id'' = Some cd"
    by (auto simp: match_sent_cred_def_id_def Let_def split: if_splits sum.splits option.splits)
  from max_by_epoch_mem [OF m] tag_query_cred_def_id [OF assms(2)]
  have "map_of m ''cred_def_id'' = Some (the (p_cred_def_id pm))"
    by (rule found_matches)
  with cd show ?thesis by simp
qed

lemma create_offer_no_match:
  assumes "(if counter \<noteq> None then counter else credential_proposal_dict r) = Some pm0"
    and "match_sent_cred_def_id (tag_query_of (assign_trace_decorator (trace r) pm0)) w = Inl e"
  shows "\<exists>r'. create_offer p r counter comment w = (Inl e, w, r') \<and> state r' = state r
           \<and> credential_definition_id r' = credential_definition_id r"
  using assms by (simp add: create_offer_def Let_def)

lemma assign_trace_preview:
  "p_credential_proposal (assign_trace_decorator t m) = p_credential_proposal m"
  by (simp add: assign_trace_decorator_def)

lemma assign_trace_offers:
  "o_offers_attach (assign_trace_decorator t m) = o_offers_attach m"
  by (simp add: assign_trace_decorator_def)

lemma create_offer_success:
  assumes "create_offer p r counter comment w = (Inr msg, w', r')"
  shows "\<exists>pm0 cd preview.
           (if counter \<noteq> None then counter else credential_proposal_dict r) = Some pm0
         \<and> match_sent_cred_def_id (tag_query_of (assign_trace_decorator (trace r) pm0)) w = Inr cd
         \<and> p_credential_proposal pm0 = Some preview
         \<and> attr_dict_keys preview =
             set (attrNames (get_schema p (Some (credential_definition_id2schema_id p cd))))
         \<and> o_offers_attach msg = [fst (obtain_offer p cd w)]
         \<and> credential_definition_id r' = map_of (fst (obtain_offer p cd w)) ''cred_def_id''
         \<and> state r' = Some OFFER_SENT"
proof -
  let ?sel = "if counter \<noteq> None then counter else credential_proposal_dict r"
  obtain pm0 where pm0: "?sel = Some pm0"
    using assms by (cases ?sel) (simp_all add: create_offer_def)
  let ?pm = "assign_trace_decorator (trace r) pm0"
  obtain cd where cd: "match_sent_cred_def_id (tag_query_of ?pm) w = Inr cd"
    using assms pm0
    by (cases "match_sent_cred_def_id (tag_query_of ?pm) w") (simp_all add: create_offer_def Let_def)
  obtain preview where pv: "p_credential_proposal pm0 = Some preview"
    using assms pm0 cd
    by (cases "p_credential_proposal pm0")
       (simp_all add: create_offer_def Let_def assign_trace_preview)
  let ?attrs = "set (attrNames (get_schema p (Some (credential_definition_id2schema_id p cd))))"
  have eq: "attr_dict_keys preview = ?attrs"
    using assms pm0 cd pv
    by (cases "attr_dict_keys preview = ?attrs")
       (simp_all add: create_offer_def Let_def assign_trace_preview)
  let ?offer = "fst (obtain_offer p cd w)"
  obtain sid where sid: "map_of ?offer ''schema_id'' = Some sid"
    using assms pm0 cd pv eq
    by (cases "map_of ?offer ''schema_id''")
       (simp_all add: create_offer_def Let_def assign_trace_preview case_prod_beta)
  obtain cdid where cdid: "map_of ?offer ''cred_def_id'' = Some cdid"
    using assms pm0 cd pv eq sid
    by (cases "map_of ?offer ''cred_def_id''")
       (simp_all add: create_offer_def Let_def assign_trace_preview case_prod_beta)
  have "o_offers_attach msg = [?offer] \<and> credential_definition_id r' = Some cdid
          \<and> state r' = Some OFFER_SENT"
    using assms pm0 cd pv eq sid cdid
    by (auto simp: create_offer_def Let_def assign_trace_preview case_prod_beta save_fields
        assign_trace_offers)
  with pm0 cd pv eq cdid show ?thesis by simp
qed

text \<open>
  C6. \<^verbatim>\<open>create_offer\<close> always resolves the cred def through the records of the cred defs
  the issuer has sent to the ledger, with the query built from the non-empty selectors of
  the proposal, \<open>cred_def_id\<close> among them; there is no separate path for a proposal that
  names its cred def. When no record matches, the flow fails with the error that carries
  the query, and the world and the state of the record are unchanged. When records match
  and each has an integer epoch and a \<open>cred_def_id\<close> tag, the \<open>cred_def_id\<close> of a record
  with the greatest epoch is chosen. When the proposal names a cred def and the lookup
  succeeds, the chosen id is the one the proposal names. The offer attached to the
  message of a successful call is the offer obtained for the chosen id.
\<close>

theorem cred_def_selected_by_lookup:
  assumes "(if counter \<noteq> None then counter else credential_proposal_dict r) = Some pm0"
    and "pm = assign_trace_decorator (trace r) pm0"
    and "found = find_all_records (sent_cred_defs w) (tag_query_of pm)"
  shows "(found = [] \<longrightarrow>
           (\<exists>r'. create_offer p r counter comment w = (Inl (NoUsableCredDef (tag_query_of pm)), w, r')
              \<and> state r' = state r))
       \<and> (found \<noteq> [] \<and> (\<forall>t \<in> set found. \<exists>k cd. epoch_of t = Inr k \<and> map_of t ''cred_def_id'' = Some cd) \<longrightarrow>
           (\<exists>m k. m \<in> set found \<and> epoch_of m = Inr k
              \<and> (\<forall>t \<in> set found. \<exists>k'. epoch_of t = Inr k' \<and> k' \<le> k)
              \<and> match_sent_cred_def_id (tag_query_of pm) w = Inr (the (map_of m ''cred_def_id''))))
       \<and> (\<forall>cd. match_sent_cred_def_id (tag_query_of pm) w = Inr cd \<and> truthy (p_cred_def_id pm) \<longrightarrow>
              cd = the (p_cred_def_id pm))
       \<and> (\<forall>msg w' r'. create_offer p r counter comment w = (Inr msg, w', r') \<longrightarrow>
            (\<exists>cd. match_sent_cred_def_id (tag_query_of pm) w = Inr cd
               \<and> o_offers_attach msg = [fst (obtain_offer p cd w)]))"
proof (intro conjI impI allI)
  assume "found = []"
  then have "match_sent_cred_def_id (tag_query_of (assign_trace_decorator (trace r) pm0)) w
               = Inl (NoUsableCredDef (tag_query_of pm))"
    using assms(2,3) by (simp add: match_sent_cred_def_id_def)
  from create_offer_no_match [OF assms(1) this]
  show "\<exists>r'. create_offer p r counter comment w = (Inl (NoUsableCredDef (tag_query_of pm)), w, r')
              \<and> state r' = state r" by blast
next
  assume a: "found \<noteq> [] \<and> (\<forall>t \<in> set found. \<exists>k cd. epoch_of t = Inr k \<and> map_of t ''cred_def_id'' = Some cd)"
  then have "\<forall>t \<in> set found. \<exists>k. epoch_of t = Inr k" by blast
  with a obtain m k where m: "max_by_epoch found = Inr m" "m \<in> set found" "epoch_of m = Inr k"
      "\<forall>t \<in> set found. \<exists>k'. epoch_of t = Inr k' \<and> k' \<le> k"
    using max_by_epoch_greatest [of found] by blast
  from a m(2) obtain cd where cd: "map_of m ''cred_def_id'' = Some cd" by blast
  have "match_sent_cred_def_id (tag_query_of pm) w = Inr (the (map_of m ''cred_def_id''))"
    using a m(1) cd assms(3) by (simp add: match_sent_cred_def_id_def)
  with m show "\<exists>m k. m \<in> set found \<and> epoch_of m = Inr k
              \<and> (\<forall>t \<in> set found. \<exists>k'. epoch_of t = Inr k' \<and> k' \<le> k)
              \<and> match_sent_cred_def_id (tag_query_of pm) w = Inr (the (map_of m ''cred_def_id''))"
    by blast
next
  fix cd
  assume "match_sent_cred_def_id (tag_query_of pm) w = Inr cd \<and> truthy (p_cred_def_id pm)"
  then show "cd = the (p_cred_def_id pm)" using match_explicit by blast
next
  fix msg w' r'
  assume "create_offer p r counter comment w = (Inr msg, w', r')"
  from create_offer_success [OF this] assms(1,2)
  show "\<exists>cd. match_sent_cred_def_id (tag_query_of pm) w = Inr cd
               \<and> o_offers_attach msg = [fst (obtain_offer p cd w)]"
    by auto
qed

lemma ex_epochs:
  "epoch_of [(''schema_name'', ''identification schema''), (''cred_def_id'', ''CD1''), (''epoch'', ''100'')] = Inr 100"
  "epoch_of [(''schema_name'', ''identification schema''), (''cred_def_id'', ''CD2''), (''epoch'', ''200'')] = Inr 200"
  by (simp_all add: epoch_of_def py_int_def digit_val_def)

lemma ex_found:
  "find_all_records (sent_cred_defs (ex_world recs regs)) (tag_query_of (ex_proposal pv None)) =
     [[(''schema_name'', ''identification schema''), (''cred_def_id'', ''CD1''), (''epoch'', ''100'')],
      [(''schema_name'', ''identification schema''), (''cred_def_id'', ''CD2''), (''epoch'', ''200'')]]"
  by (simp add: find_all_records_def ex_world_def ex_sent_cred_defs_def tag_query_of_def
      CRED_DEF_TAGS_def ex_proposal_def truthy_def)

lemma ex_match:
  "match_sent_cred_def_id (tag_query_of (ex_proposal pv None)) (ex_world recs regs) = Inr ''CD2''"
  by (simp add: match_sent_cred_def_id_def ex_found max_by_epoch_def ex_epochs)

theorem cred_def_selected_by_lookup_witness:
  "\<exists>m k. m \<in> set (find_all_records (sent_cred_defs (ex_world [] [])) (tag_query_of (ex_proposal ex_preview None)))
       \<and> epoch_of m = Inr k
       \<and> (\<forall>t \<in> set (find_all_records (sent_cred_defs (ex_world [] [])) (tag_query_of (ex_proposal ex_preview None))).
             \<exists>k'. epoch_of t = Inr k' \<and> k' \<le> k)
       \<and> match_sent_cred_def_id (tag_query_of (ex_proposal ex_preview None)) (ex_world [] [])
           = Inr (the (map_of m ''cred_def_id''))"
proof -
  let ?r = "ex_record (Some PROPOSAL_RECEIVED)"
  let ?found = "find_all_records (sent_cred_defs (ex_world [] [])) (tag_query_of (ex_proposal ex_preview None))"
  have 1: "(if (None :: credential_proposal option) \<noteq> None then None else credential_proposal_dict ?r)
             = Some (ex_proposal ex_preview None)"
    by (simp add: ex_record_def new_cred_ex_def)
  have 2: "ex_proposal ex_preview None = assign_trace_decorator (trace ?r) (ex_proposal ex_preview None)"
    by (simp add: assign_trace_decorator_def ex_record_def new_cred_ex_def)
  have 3: "?found \<noteq> [] \<and> (\<forall>t \<in> set ?found. \<exists>k cd. epoch_of t = Inr k \<and> map_of t ''cred_def_id'' = Some cd)"
    by (simp add: ex_found ex_epochs)
  show ?thesis
    using cred_def_selected_by_lookup [OF 1 2 refl, where p = ex_profile and comment = None] 3
    by blast
qed

text \<open>
  A proposal that names the cred def CD9, for which the issuer holds no record: the flow
  raises instead of using CD9.
\<close>

theorem explicit_cred_def_id_counterexample:
  "p_cred_def_id (ex_proposal ex_preview (Some ''CD9'')) = Some ''CD9''
   \<and> fst (create_offer ex_profile
        ((ex_record (Some PROPOSAL_RECEIVED))
           \<lparr>credential_proposal_dict := Some (ex_proposal ex_preview (Some ''CD9''))\<rparr>)
        None None (ex_world [] []))
     = Inl (NoUsableCredDef [(''schema_name'', ''identification schema''), (''cred_def_id'', ''CD9'')])"
  by (simp add: create_offer_def ex_record_def new_cred_ex_def assign_trace_decorator_def
      match_sent_cred_def_id_def find_all_records_def ex_world_def ex_sent_cred_defs_def
      tag_query_of_def CRED_DEF_TAGS_def ex_proposal_def truthy_def)

section \<open>Checking the preview against the schema\<close>

text \<open>
  C7. \<^verbatim>\<open>create_offer\<close> returns only when the set of attribute names of the preview equals
  the set of \<open>attrNames\<close> of the schema of the chosen cred def. Whenever a cred def was
  chosen and the two sets differ, the flow fails with the mismatch error, which carries
  both sets, and the world and the state of the record are unchanged.
\<close>

theorem preview_checked_against_schema:
  "(\<forall>msg w' r'. create_offer p r counter comment w = (Inr msg, w', r') \<longrightarrow>
      (\<exists>pm0 cd preview.
          (if counter \<noteq> None then counter else credential_proposal_dict r) = Some pm0
        \<and> match_sent_cred_def_id (tag_query_of (assign_trace_decorator (trace r) pm0)) w = Inr cd
        \<and> p_credential_proposal pm0 = Some preview
        \<and> attr_dict_keys preview =
            set (attrNames (get_schema p (Some (credential_definition_id2schema_id p cd))))))
   \<and> (\<forall>pm0 cd preview.
        (if counter \<noteq> None then counter else credential_proposal_dict r) = Some pm0
      \<and> match_sent_cred_def_id (tag_query_of (assign_trace_decorator (trace r) pm0)) w = Inr cd
      \<and> p_credential_proposal pm0 = Some preview
      \<and> attr_dict_keys preview \<noteq>
          set (attrNames (get_schema p (Some (credential_definition_id2schema_id p cd)))) \<longrightarrow>
        (\<exists>r'. create_offer p r counter comment w =
                 (Inl (PreviewMismatch (attr_dict_keys preview)
                    (set (attrNames (get_schema p (Some (credential_definition_id2schema_id p cd)))))),
                  w, r')
             \<and> state r' = state r))"
proof (intro conjI allI impI)
  fix msg w' r'
  assume "create_offer p r counter comment w = (Inr msg, w', r')"
  from create_offer_success [OF this]
  show "\<exists>pm0 cd preview.
          (if counter \<noteq> None then counter else credential_proposal_dict r) = Some pm0
        \<and> match_sent_cred_def_id (tag_query_of (assign_trace_decorator (trace r) pm0)) w = Inr cd
        \<and> p_credential_proposal pm0 = Some preview
        \<and> attr_dict_keys preview =
            set (attrNames (get_schema p (Some (credential_definition_id2schema_id p cd))))"
    by blast
next
  fix pm0 cd preview
  assume "(if counter \<noteq> None then counter else credential_proposal_dict r) = Some pm0
      \<and> match_sent_cred_def_id (tag_query_of (assign_trace_decorator (trace r) pm0)) w = Inr cd
      \<and> p_credential_proposal pm0 = Some preview
      \<and> attr_dict_keys preview \<noteq>
          set (attrNames (get_schema p (Some (credential_definition_id2schema_id p cd))))"
  then show "\<exists>r'. create_offer p r counter comment w =
                 (Inl (PreviewMismatch (attr_dict_keys preview)
                    (set (attrNames (get_schema p (Some (credential_definition_id2schema_id p cd)))))),
                  w, r')
             \<and> state r' = state r"
    by (simp add: create_offer_def Let_def assign_trace_preview)
qed

lemma sets_differ: "x \<notin> A \<Longrightarrow> x \<in> B \<Longrightarrow> A \<noteq> B"
  by blast

theorem preview_checked_against_schema_witness:
  "\<exists>r'. create_offer ex_profile
           ((ex_record (Some PROPOSAL_RECEIVED))
              \<lparr>credential_proposal_dict := Some (ex_proposal (butlast ex_preview) None)\<rparr>)
           None None (ex_world [] []) =
           (Inl (PreviewMismatch {''name'', ''date''} {''name'', ''date'', ''id''}), ex_world [] [], r')
       \<and> state r' = Some PROPOSAL_RECEIVED"
proof -
  let ?pm = "ex_proposal (butlast ex_preview) None"
  let ?r = "(ex_record (Some PROPOSAL_RECEIVED))\<lparr>credential_proposal_dict := Some ?pm\<rparr>"
  have 1: "(if (None :: credential_proposal option) \<noteq> None then None else credential_proposal_dict ?r)
             = Some ?pm"
    by simp
  have t: "assign_trace_decorator (trace ?r) ?pm = ?pm"
    by (simp add: assign_trace_decorator_def ex_record_def new_cred_ex_def)
  have 2: "match_sent_cred_def_id (tag_query_of (assign_trace_decorator (trace ?r) ?pm)) (ex_world [] [])
             = Inr ''CD2''"
    unfolding t by (rule ex_match)
  have 3: "p_credential_proposal ?pm = Some (butlast ex_preview)"
    by (simp add: ex_proposal_def)
  have k: "attr_dict_keys (butlast ex_preview) = {''name'', ''date''}"
    by (simp add: attr_dict_keys_def ex_preview_def)
  have s: "set (attrNames (get_schema ex_profile (Some (credential_definition_id2schema_id ex_profile ''CD2''))))
             = {''name'', ''date'', ''id''}"
    by (simp add: ex_profile_def)
  have "''id'' \<notin> {''name'', ''date''}" "''id'' \<in> {''name'', ''date'', ''id''}" by simp_all
  then have ne: "{''name'', ''date''} \<noteq> {''name'', ''date'', ''id''}"
    by (rule sets_differ)
  have 4: "attr_dict_keys (butlast ex_preview) \<noteq>
      set (attrNames (get_schema ex_profile (Some (credential_definition_id2schema_id ex_profile ''CD2''))))"
    unfolding k s by (rule ne)
  have st: "state ?r = Some PROPOSAL_RECEIVED"
    by (simp add: ex_record_def new_cred_ex_def)
  note T = preview_checked_against_schema [where p = ex_profile and r = ?r and counter = None
        and comment = None and w = "ex_world [] []"]
  have "\<exists>r'. create_offer ex_profile ?r None None (ex_world [] []) =
          (Inl (PreviewMismatch (attr_dict_keys (butlast ex_preview))
             (set (attrNames (get_schema ex_profile (Some (credential_definition_id2schema_id ex_profile ''CD2'')))))),
           ex_world [] [], r')
        \<and> state r' = state ?r"
    by (rule T [THEN conjunct2, rule_format, OF conjI [OF 1 conjI [OF 2 conjI [OF 3 4]]]])
  then show ?thesis
    unfolding k s st .
qed

section \<open>The credential definition of an exchange\<close>

lemma create_request_keeps_cred_def:
  "credential_definition_id (snd (snd (create_request p r holder_did w))) = credential_definition_id r"
  by (simp add: create_request_def Let_def case_prod_beta save_fields split: option.splits)

lemma store_credential_keeps_cred_def:
  "credential_definition_id (snd (snd (store_credential p r cid w))) = credential_definition_id r"
  by (simp add: store_credential_def Let_def case_prod_beta save_fields split: option.splits sum.splits)

lemma send_credential_ack_keeps_cred_def:
  "credential_definition_id (snd (snd (send_credential_ack p r w))) = credential_definition_id r"
  by (simp add: send_credential_ack_def Let_def case_prod_beta save_fields)

lemma issue_finish_keeps_cred_def:
  "credential_definition_id (snd (snd (issue_finish p r comment w))) = credential_definition_id r"
  by (simp add: issue_finish_def Let_def case_prod_beta save_fields split: option.splits)

lemma after_create_keeps_cred_def:
  "credential_definition_id (snd (snd (after_create p r comment active cj rev_id w))) =
     credential_definition_id r"
  by (simp add: after_create_def Let_def issue_finish_keeps_cred_def split: option.splits)

lemma call_issuer_keeps_cred_def:
  "(case call_issuer p r comment sch off rq active tails w of
      Finished res \<Rightarrow> credential_definition_id (snd (snd res)) = credential_definition_id r
    | NoActiveRegistry w' r' \<Rightarrow> credential_definition_id r' = credential_definition_id r
    | RegistryFull w' r' \<Rightarrow> credential_definition_id r' = credential_definition_id r)"
  by (simp add: call_issuer_def Let_def after_create_keeps_cred_def
      split: option.splits sum.splits prod.splits)

lemma issue_attempt_keeps_cred_def:
  "(case issue_attempt p r comment w of
      Finished res \<Rightarrow> credential_definition_id (snd (snd res)) = credential_definition_id r
    | NoActiveRegistry w' r' \<Rightarrow> credential_definition_id r' = credential_definition_id r
    | RegistryFull w' r' \<Rightarrow> credential_definition_id r' = credential_definition_id r)"
proof -
  have c: "\<And>r0 active tails w0 sch off rq.
      credential_definition_id r0 = credential_definition_id r \<Longrightarrow>
      (case call_issuer p r0 comment sch off rq active tails w0 of
         Finished res \<Rightarrow> credential_definition_id (snd (snd res)) = credential_definition_id r
       | NoActiveRegistry w' r' \<Rightarrow> credential_definition_id r' = credential_definition_id r
       | RegistryFull w' r' \<Rightarrow> credential_definition_id r' = credential_definition_id r)"
    using call_issuer_keeps_cred_def by metis
  show ?thesis
    by (simp add: issue_attempt_def Let_def issue_finish_keeps_cred_def c
        split: option.splits sum.splits)
qed

lemma issue_credential_keeps_cred_def:
  "credential_definition_id (snd (snd (issue_credential env p r comment retries w))) =
     credential_definition_id r"
proof (induction env p r comment retries w rule: issue_credential.induct)
  case (1 env p r comment retries w)
  show ?case
  proof (cases "issue_attempt p r comment w")
    case (Finished res)
    with issue_attempt_keeps_cred_def [where p = p and r = r and comment = comment and w = w] show ?thesis
      by (simp add: issue_credential.simps [of env p r comment retries w])
  next
    case (NoActiveRegistry w' r')
    with issue_attempt_keeps_cred_def [where p = p and r = r and comment = comment and w = w]
    have k: "credential_definition_id r' = credential_definition_id r" by simp
    show ?thesis
    proof (cases "0 < retries")
      case True
      with NoActiveRegistry "1.IH"(1) [OF NoActiveRegistry True] k show ?thesis
        by (simp add: issue_credential.simps [of env p r comment retries w])
    next
      case False
      with NoActiveRegistry k show ?thesis
        by (simp add: issue_credential.simps [of env p r comment retries w])
    qed
  next
    case (RegistryFull w' r')
    with issue_attempt_keeps_cred_def [where p = p and r = r and comment = comment and w = w]
    have k: "credential_definition_id r' = credential_definition_id r" by simp
    show ?thesis
    proof (cases "0 < retries")
      case True
      with RegistryFull "1.IH"(2) [OF RegistryFull True] k show ?thesis
        by (simp add: issue_credential.simps [of env p r comment retries w])
    next
      case False
      with RegistryFull k show ?thesis
        by (simp add: issue_credential.simps [of env p r comment retries w])
    qed
  qed
qed

lemma receive_credential_keeps_cred_def:
  assumes "receive_credential p message conn w = (Inr r', w')"
  shows "\<exists>r0. retrieve_by_connection_and_thread (cx_store w) conn (thread_id_of message) = Inr r0
           \<and> credential_definition_id r' = credential_definition_id r0"
  using assms
  by (auto simp: receive_credential_def Let_def case_prod_beta save_fields
      split: if_splits sum.splits)

lemma receive_credential_ack_keeps_cred_def:
  assumes "receive_credential_ack p message conn w = (Inr r', w')"
  shows "\<exists>r0. retrieve_by_connection_and_thread (cx_store w) conn (thread_id_of message) = Inr r0
           \<and> credential_definition_id r' = credential_definition_id r0"
  using assms
  by (auto simp: receive_credential_ack_def Let_def case_prod_beta save_fields
      split: if_splits sum.splits)

lemma receive_problem_report_keeps_cred_def:
  assumes "receive_problem_report p message conn w = (Inr r', w')"
  shows "\<exists>r0. retrieve_by_connection_and_thread (cx_store w) conn (thread_id_of message) = Inr r0
           \<and> credential_definition_id r' = credential_definition_id r0"
  using assms
  by (auto simp: receive_problem_report_def Let_def case_prod_beta save_fields
      split: if_splits sum.splits)

lemma receive_request_keeps_cred_def:
  assumes "receive_request p message conn w = (Inr r', w')"
  shows "\<exists>r0. (retrieve_by_connection_and_thread (cx_store w) conn (thread_id_of message) = Inr r0
              \<or> retrieve_by_thread_no_connection (cx_store w) (thread_id_of message) = Inr r0)
           \<and> credential_definition_id r' = credential_definition_id r0"
  using assms
  by (auto simp: receive_request_def Let_def case_prod_beta save_fields
      split: if_splits sum.splits)

lemma receive_offer_sets_cred_def:
  assumes "receive_offer p message conn w = (Inr r', w')"
  shows "\<exists>indy_offer rest. o_offers_attach message = indy_offer # rest
           \<and> credential_definition_id r' = map_of indy_offer ''cred_def_id''"
proof -
  obtain indy_offer rest where o: "o_offers_attach message = indy_offer # rest"
    using assms by (cases "o_offers_attach message") (simp_all add: receive_offer_def)
  obtain sid where sid: "map_of indy_offer ''schema_id'' = Some sid"
    using assms o by (cases "map_of indy_offer ''schema_id''") (simp_all add: receive_offer_def)
  obtain cd where cd: "map_of indy_offer ''cred_def_id'' = Some cd"
    using assms o sid by (cases "map_of indy_offer ''cred_def_id''") (simp_all add: receive_offer_def)
  have "credential_definition_id r' = Some cd"
    using assms o sid cd
    by (auto simp: receive_offer_def Let_def case_prod_beta save_fields split: sum.splits if_splits)
  with o cd show ?thesis by simp
qed

text \<open>
  C9. \<open>credential_definition_id\<close> is assigned by \<^verbatim>\<open>receive_offer\<close> and by \<^verbatim>\<open>create_offer\<close>,
  and each of them, when it succeeds, sets it to the \<open>cred_def_id\<close> of the offer it
  handles, whatever the record held before. No other flow changes it: after
  \<^verbatim>\<open>create_request\<close>, \<^verbatim>\<open>issue_credential\<close>, \<^verbatim>\<open>store_credential\<close> and
  \<^verbatim>\<open>send_credential_ack\<close> the record has the value it had, and the record returned by
  \<^verbatim>\<open>receive_request\<close>, \<^verbatim>\<open>receive_credential\<close>, \<^verbatim>\<open>receive_credential_ack\<close> and
  \<^verbatim>\<open>receive_problem_report\<close> has the value of the stored record it was loaded from.
\<close>

theorem credential_definition_id_assignment:
  "(\<forall>r' w'. receive_offer p offer_message conn w = (Inr r', w') \<longrightarrow>
      (\<exists>indy_offer rest. o_offers_attach offer_message = indy_offer # rest
         \<and> credential_definition_id r' = map_of indy_offer ''cred_def_id''))
   \<and> (\<forall>msg w' r'. create_offer p r counter comment w = (Inr msg, w', r') \<longrightarrow>
      (\<exists>off. o_offers_attach msg = [off]
         \<and> credential_definition_id r' = map_of off ''cred_def_id''))
   \<and> credential_definition_id (snd (snd (create_request p r holder_did w))) = credential_definition_id r
   \<and> credential_definition_id (snd (snd (issue_credential env p r comment retries w))) =
       credential_definition_id r
   \<and> credential_definition_id (snd (snd (store_credential p r cid w))) = credential_definition_id r
   \<and> credential_definition_id (snd (snd (send_credential_ack p r w))) = credential_definition_id r
   \<and> (\<forall>r' w'. receive_request p request_message conn w = (Inr r', w') \<longrightarrow>
        (\<exists>r0. (retrieve_by_connection_and_thread (cx_store w) conn (thread_id_of request_message) = Inr r0
              \<or> retrieve_by_thread_no_connection (cx_store w) (thread_id_of request_message) = Inr r0)
           \<and> credential_definition_id r' = credential_definition_id r0))
   \<and> (\<forall>r' w'. receive_credential p issue_message conn w = (Inr r', w') \<longrightarrow>
        (\<exists>r0. retrieve_by_connection_and_thread (cx_store w) conn (thread_id_of issue_message) = Inr r0
           \<and> credential_definition_id r' = credential_definition_id r0))
   \<and> (\<forall>r' w'. receive_credential_ack p ack_message conn w = (Inr r', w') \<longrightarrow>
        (\<exists>r0. retrieve_by_connection_and_thread (cx_store w) conn (thread_id_of ack_message) = Inr r0
           \<and> credential_definition_id r' = credential_definition_id r0))
   \<and> (\<forall>r' w'. receive_problem_report p report conn w = (Inr r', w') \<longrightarrow>
        (\<exists>r0. retrieve_by_connection_and_thread (cx_store w) conn (thread_id_of report) = Inr r0
           \<and> credential_definition_id r' = credential_definition_id r0))"
proof (intro conjI allI impI)
  fix r' w'
  assume "receive_offer p offer_message conn w = (Inr r', w')"
  then show "\<exists>indy_offer rest. o_offers_attach offer_message = indy_offer # rest
         \<and> credential_definition_id r' = map_of indy_offer ''cred_def_id''"
    by (rule receive_offer_sets_cred_def)
next
  fix msg w' r'
  assume "create_offer p r counter comment w = (Inr msg, w', r')"
  from create_offer_success [OF this]
  show "\<exists>off. o_offers_attach msg = [off] \<and> credential_definition_id r' = map_of off ''cred_def_id''"
    by blast
next
  show "credential_definition_id (snd (snd (create_request p r holder_did w))) = credential_definition_id r"
    by (rule create_request_keeps_cred_def)
next
  show "credential_definition_id (snd (snd (issue_credential env p r comment retries w))) =
       credential_definition_id r"
    by (rule issue_credential_keeps_cred_def)
next
  show "credential_definition_id (snd (snd (store_credential p r cid w))) = credential_definition_id r"
    by (rule store_credential_keeps_cred_def)
next
  show "credential_definition_id (snd (snd (send_credential_ack p r w))) = credential_definition_id r"
    by (rule send_credential_ack_keeps_cred_def)
next
  fix r' w'
  assume "receive_request p request_message conn w = (Inr r', w')"
  then show "\<exists>r0. (retrieve_by_connection_and_thread (cx_store w) conn (thread_id_of request_message) = Inr r0
              \<or> retrieve_by_thread_no_connection (cx_store w) (thread_id_of request_message) = Inr r0)
           \<and> credential_definition_id r' = credential_definition_id r0"
    by (rule receive_request_keeps_cred_def)
next
  fix r' w'
  assume "receive_credential p issue_message conn w = (Inr r', w')"
  then show "\<exists>r0. retrieve_by_connection_and_thread (cx_store w) conn (thread_id_of issue_message) = Inr r0
           \<and> credential_definition_id r' = credential_definition_id r0"
    by (rule receive_credential_keeps_cred_def)
next
  fix r' w'
  assume "receive_credential_ack p ack_message conn w = (Inr r', w')"
  then show "\<exists>r0. retrieve_by_connection_and_thread (cx_store w) conn (thread_id_of ack_message) = Inr r0
           \<and> credential_definition_id r' = credential_definition_id r0"
    by (rule receive_credential_ack_keeps_cred_def)
next
  fix r' w'
  assume "receive_problem_report p report conn w = (Inr r', w')"
  then show "\<exists>r0. retrieve_by_connection_and_thread (cx_store w) conn (thread_id_of report) = Inr r0
           \<and> credential_definition_id r' = credential_definition_id r0"
    by (rule receive_problem_report_keeps_cred_def)
qed

lemma ex_second_offer:
  "fst (receive_offer ex_profile (ex_offer_message ''CD2'') ''c1''
          (ex_world [ex_record (Some OFFER_RECEIVED)] [])) =
     Inr ((ex_record (Some OFFER_RECEIVED))
            \<lparr>credential_proposal_dict :=
               Some \<lparr>msg_id = ''u'', thid = None, trace_dec = False, p_comment = None,
                     p_credential_proposal = Some ex_preview, p_schema_id = Some ''S1'',
                     p_schema_issuer_did = None, p_schema_name = None, p_schema_version = None,
                     p_cred_def_id = Some ''CD2'', p_issuer_did = None\<rparr>,
             credential_offer := Some (ex_offer ''CD2''),
             credential_definition_id := Some ''CD2''\<rparr>)"
  by (simp add: receive_offer_def ex_offer_message_def ex_offer_def fresh_id_def ex_profile_def
      ex_world_def retrieve_by_connection_and_thread_def thread_id_of_def truthy_def
      ex_record_def new_cred_ex_def Let_def save_def)

theorem credential_definition_id_assignment_witness:
  "\<exists>r' w'. receive_offer ex_profile (ex_offer_message ''CD2'') ''c1''
              (ex_world [ex_record (Some OFFER_RECEIVED)] []) = (Inr r', w')
          \<and> credential_definition_id r' = map_of (ex_offer ''CD2'') ''cred_def_id''"
proof -
  obtain r' w' where run: "receive_offer ex_profile (ex_offer_message ''CD2'') ''c1''
              (ex_world [ex_record (Some OFFER_RECEIVED)] []) = (Inr r', w')"
    using ex_second_offer by (metis prod.collapse)
  have att: "o_offers_attach (ex_offer_message ''CD2'') = [ex_offer ''CD2'']"
    by (simp add: ex_offer_message_def)
  from credential_definition_id_assignment [THEN conjunct1, rule_format, OF run]
  have "credential_definition_id r' = map_of (ex_offer ''CD2'') ''cred_def_id''"
    unfolding att by simp
  with run show ?thesis by blast
qed

text \<open>
  A stored exchange whose cred def is CD1 receives, on its thread, an offer for CD2: the
  record is saved with CD2.
\<close>

theorem credential_definition_id_reassigned_counterexample:
  "credential_definition_id (ex_record (Some OFFER_RECEIVED)) = Some ''CD1''
   \<and> map_sum id credential_definition_id
        (fst (receive_offer ex_profile (ex_offer_message ''CD2'') ''c1''
               (ex_world [ex_record (Some OFFER_RECEIVED)] []))) = Inr (Some ''CD2'')"
  by (simp add: ex_second_offer) (simp add: ex_record_def new_cred_ex_def)

end
